theory Spec2Isabelle
  imports Main "HOL-Library.Word" "HOL-Library.Sublist"
begin

section \<open>GitHub stats viewer: the fetchers, the renderers and the command action\<close>

text \<open>
  The program is \<^verbatim>\<open>src/index.ts\<close>: two fetch functions over \<^verbatim>\<open>axios.get\<close>, two
  display functions over \<^verbatim>\<open>console.log\<close>, and the action of the command, which shows a
  spinner, fetches and renders inside one \<^verbatim>\<open>try\<close> block, and fails in its \<^verbatim>\<open>catch\<close>.

  The interfaces \<^verbatim>\<open>GitHubUser\<close> and \<^verbatim>\<open>GitHubRepo\<close> are TypeScript declarations only:
  \<^verbatim>\<open>response.data\<close> is returned unchecked, so at run time the display functions work
  on whatever value the response body is. The model therefore runs on JavaScript values,
  with the errors the language raises on them, and the two interfaces are the records
  that a well-shaped value is read as.

  What lies outside the file is taken as it is handed to the code: the network (what
  \<^verbatim>\<open>axios.get\<close> settles with for a URL), the host's \<^verbatim>\<open>Date\<close>, the text of the
  engine's \<^verbatim>\<open>TypeError\<close> messages, the colouring done by chalk (a style tag on the
  text) and the drawing of the table by cli-table3 (the table object that is logged).
  Calls into ora, chalk and cli-table3 are taken to return normally.
\<close>

subsection \<open>JavaScript strings\<close>

text \<open>
  A JavaScript string is a sequence of UTF-16 code units; \<^verbatim>\<open>length\<close> and
  \<^verbatim>\<open>substring\<close> count code units.
\<close>

type_synonym code_unit = "16 word"
type_synonym js_string = "code_unit list"

text \<open>A string literal of the source (all of them are ASCII).\<close>

definition lit :: "string \<Rightarrow> js_string" where
  "lit s = map (\<lambda>c. of_char c) s"

definition apostrophe :: code_unit where
  "apostrophe = 0x27"

definition newline :: code_unit where
  "newline = 0x0A"

text \<open>
  \<^verbatim>\<open>s.substring(start, end)\<close>: both indices are clamped to \<open>[0, length]\<close> and swapped
  when the first is the larger.
\<close>

definition substring :: "js_string \<Rightarrow> int \<Rightarrow> int \<Rightarrow> js_string" where
  "substring s start end =
     (let len = int (length s);
          a = min (max start 0) len;
          b = min (max end 0) len;
          from = min a b;
          to = max a b
      in take (nat (to - from)) (drop (nat from) s))"

subsection \<open>JavaScript values\<close>

text \<open>
  The values a response body can be, and \<^verbatim>\<open>undefined\<close>, which reading a missing
  property gives. A number is an integer, or one of the other numbers (a fraction, an
  infinity), which the model tells apart but does not interpret.
\<close>

datatype number = Integral int | NonIntegral nat

datatype jsval =
    JUndefined
  | JNull
  | JBool bool
  | JNum number
  | JStr js_string
  | JArr "jsval list"
  | JObj "(js_string \<times> jsval) list"

text \<open>
  The \<^verbatim>\<open>TypeError\<close>s that the operations of the source can raise on such values:
  reading a property (named) of \<^verbatim>\<open>null\<close> or of \<^verbatim>\<open>undefined\<close>, calling a method
  (the expression called) that the value does not have, and converting to a string an
  object that has no usable \<^verbatim>\<open>toString\<close>. \<open>Error\<close> is \<^verbatim>\<open>new Error(message)\<close>.
\<close>

datatype type_error =
    ReadOfNull string
  | ReadOfUndefined string
  | NotAFunction string
  | NotPrimitive

datatype js_error = Error js_string | TypeError type_error

text \<open>
  What \<^verbatim>\<open>await axios.get(url)\<close> gives: the response, or a thrown value. An
  \<^verbatim>\<open>AxiosError\<close> carries the status of the response when there was one.
\<close>

datatype thrown = AxiosError "nat option" | OtherThrown

fun isAxiosError :: "thrown \<Rightarrow> bool" where
  "isAxiosError (AxiosError st) = True"
| "isAxiosError OtherThrown = False"

fun response_status :: "thrown \<Rightarrow> nat option" where
  "response_status (AxiosError st) = st"
| "response_status OtherThrown = None"

datatype 'a settled = Resolved 'a | Rejected thrown

text \<open>
  The network and the host. \<open>axios_get url\<close> is what the request settles with; the body
  of a response is any value (axios leaves a body that is not JSON as the string it is).
  \<open>toLocaleDateString s\<close> is \<^verbatim>\<open>new Date(s).toLocaleDateString()\<close> for a string, which
  raises nothing; \<open>dateOfNonString\<close> is the same expression for another value.
  \<open>numberToStringHost\<close> prints the numbers that are not safe integers, and
  \<open>typeErrorMessage\<close> is the engine's message of a \<^verbatim>\<open>TypeError\<close>.
\<close>

record world =
  axios_get :: "js_string \<Rightarrow> jsval settled"
  toLocaleDateString :: "js_string \<Rightarrow> js_string"
  dateOfNonString :: "jsval \<Rightarrow> js_error + js_string"
  numberToStringHost :: "number \<Rightarrow> js_string"
  typeErrorMessage :: "type_error \<Rightarrow> js_string"

fun message :: "world \<Rightarrow> js_error \<Rightarrow> js_string" where
  "message w (Error m) = m"
| "message w (TypeError t) = typeErrorMessage w t"

text \<open>
  An own property of an object read from JSON (of a repeated key the last one counts),
  \<^verbatim>\<open>undefined\<close> when there is none.
\<close>

definition own :: "(js_string \<times> jsval) list \<Rightarrow> string \<Rightarrow> jsval" where
  "own kvs k = (case map_of (rev kvs) (lit k) of None \<Rightarrow> JUndefined | Some x \<Rightarrow> x)"

text \<open>
  \<^verbatim>\<open>v.k\<close> for the property names that the source reads. None of them is inherited
  from a prototype, except \<^verbatim>\<open>length\<close> of an array and of a string.
\<close>

fun getProp :: "jsval \<Rightarrow> string \<Rightarrow> js_error + jsval" where
  "getProp JUndefined k = Inl (TypeError (ReadOfUndefined k))"
| "getProp JNull k = Inl (TypeError (ReadOfNull k))"
| "getProp (JObj kvs) k = Inr (own kvs k)"
| "getProp (JArr xs) k =
     Inr (if k = ''length'' then JNum (Integral (int (length xs))) else JUndefined)"
| "getProp (JStr s) k =
     Inr (if k = ''length'' then JNum (Integral (int (length s))) else JUndefined)"
| "getProp (JBool b) k = Inr JUndefined"
| "getProp (JNum n) k = Inr JUndefined"

text \<open>
  A value in a condition: \<^verbatim>\<open>undefined\<close>, \<^verbatim>\<open>null\<close>, \<^verbatim>\<open>false\<close>, zero and the empty
  string are falsy (no JSON text gives \<^verbatim>\<open>NaN\<close>).
\<close>

fun truthy :: "jsval \<Rightarrow> bool" where
  "truthy JUndefined = False"
| "truthy JNull = False"
| "truthy (JBool b) = b"
| "truthy (JNum n) = (n \<noteq> Integral 0)"
| "truthy (JStr s) = (s \<noteq> [])"
| "truthy (JArr xs) = True"
| "truthy (JObj kvs) = True"

text \<open>
  A number in a template literal. An integer below \<open>2^53\<close> in absolute value is a
  number that JavaScript holds exactly, and prints in plain decimal digits.
\<close>

definition digit :: "nat \<Rightarrow> code_unit" where
  "digit d = of_nat (48 + d)"

function decimal :: "nat \<Rightarrow> js_string" where
  "decimal n = (if n < 10 then [digit n] else decimal (n div 10) @ [digit (n mod 10)])"
  by pat_completeness auto
termination
  by (relation "measure (\<lambda>n. n)") auto

declare decimal.simps [simp del]

definition numberToString :: "world \<Rightarrow> number \<Rightarrow> js_string" where
  "numberToString w n =
     (case n of
        Integral i \<Rightarrow>
          if \<bar>i\<bar> < 2 ^ 53
          then (if i < 0 then lit ''-'' @ decimal (nat (- i)) else decimal (nat i))
          else numberToStringHost w n
      | NonIntegral k \<Rightarrow> numberToStringHost w n)"

text \<open>
  \<^verbatim>\<open>`${v}`\<close>: the conversion of a value to a string. An array is its elements joined
  by commas, \<^verbatim>\<open>null\<close> and \<^verbatim>\<open>undefined\<close> elements as the empty string. An object
  read from JSON is \<^verbatim>\<open>[object Object]\<close>, unless it has a property \<^verbatim>\<open>toString\<close> of
  its own: that is not a function, and the conversion raises.
\<close>

fun to_string :: "world \<Rightarrow> jsval \<Rightarrow> js_error + js_string"
  and join :: "world \<Rightarrow> jsval list \<Rightarrow> js_error + js_string" where
  "to_string w JUndefined = Inr (lit ''undefined'')"
| "to_string w JNull = Inr (lit ''null'')"
| "to_string w (JBool b) = Inr (if b then lit ''true'' else lit ''false'')"
| "to_string w (JNum n) = Inr (numberToString w n)"
| "to_string w (JStr s) = Inr s"
| "to_string w (JArr xs) = join w xs"
| "to_string w (JObj kvs) =
     (if lit ''toString'' \<in> set (map fst kvs) then Inl (TypeError NotPrimitive)
      else Inr (lit ''[object Object]''))"
| "join w [] = Inr []"
| "join w (x # xs) =
     (case (if x = JNull \<or> x = JUndefined then Inr [] else to_string w x) of
        Inl e \<Rightarrow> Inl e
      | Inr s \<Rightarrow>
          if xs = [] then Inr s
          else (case join w xs of Inl e \<Rightarrow> Inl e | Inr t \<Rightarrow> Inr (s @ lit '','' @ t)))"

subsection \<open>The two interfaces\<close>

text \<open>
  Field names are those of the source; \<open>name\<close> and \<open>html_url\<close> of a repository are
  \<open>repo_name\<close> and \<open>repo_html_url\<close> here, since the user record has fields of the same
  names. The fields that the code tests for truthiness before use are optional:
  \<open>None\<close> is \<^verbatim>\<open>null\<close> (what the service sends for a field without a value) or a
  missing property.
\<close>

record GitHubUser =
  login :: js_string
  name :: "js_string option"
  bio :: "js_string option"
  avatar_url :: js_string
  public_repos :: nat
  followers :: nat
  following :: nat
  created_at :: js_string
  html_url :: js_string

record GitHubRepo =
  repo_name :: js_string
  description :: "js_string option"
  repo_html_url :: js_string
  stargazers_count :: nat
  forks_count :: nat
  language :: "js_string option"

text \<open>
  A value has the shape of an interface when it is an object whose properties of these
  names hold these values; any further properties are ignored.
\<close>

definition optional_string :: "jsval \<Rightarrow> js_string option \<Rightarrow> bool" where
  "optional_string x v =
     (case v of None \<Rightarrow> x = JNull \<or> x = JUndefined | Some s \<Rightarrow> x = JStr s)"

definition shaped_GitHubUser :: "jsval \<Rightarrow> GitHubUser \<Rightarrow> bool" where
  "shaped_GitHubUser v u =
     (case v of
        JObj kvs \<Rightarrow>
          own kvs ''login'' = JStr (login u)
          \<and> optional_string (own kvs ''name'') (name u)
          \<and> optional_string (own kvs ''bio'') (bio u)
          \<and> own kvs ''avatar_url'' = JStr (avatar_url u)
          \<and> own kvs ''public_repos'' = JNum (Integral (int (public_repos u)))
          \<and> own kvs ''followers'' = JNum (Integral (int (followers u)))
          \<and> own kvs ''following'' = JNum (Integral (int (following u)))
          \<and> own kvs ''created_at'' = JStr (created_at u)
          \<and> own kvs ''html_url'' = JStr (html_url u)
      | _ \<Rightarrow> False)"

definition shaped_GitHubRepo :: "jsval \<Rightarrow> GitHubRepo \<Rightarrow> bool" where
  "shaped_GitHubRepo v r =
     (case v of
        JObj kvs \<Rightarrow>
          own kvs ''name'' = JStr (repo_name r)
          \<and> optional_string (own kvs ''description'') (description r)
          \<and> own kvs ''html_url'' = JStr (repo_html_url r)
          \<and> own kvs ''stargazers_count'' = JNum (Integral (int (stargazers_count r)))
          \<and> own kvs ''forks_count'' = JNum (Integral (int (forks_count r)))
          \<and> optional_string (own kvs ''language'') (language r)
      | _ \<Rightarrow> False)"

subsection \<open>What the process does, as a trace\<close>

datatype style = Bold | Blue | Green | Yellow | Cyan | WhiteBold

text \<open>A cell handed to the table: a styled text, or a value as it is.\<close>

datatype cell = Styled style js_string | Val jsval

record table =
  head :: "cell list"
  colWidths :: "nat list"
  rows :: "cell list list"

text \<open>
  \<open>AxiosGet url\<close> is the call of \<^verbatim>\<open>axios.get(url)\<close>; \<open>AxiosSettled url ok\<close> is the point
  where the awaited promise has settled, fulfilled (\<open>True\<close>) or rejected.
\<close>

datatype event =
    SpinnerStart js_string
  | AxiosGet js_string
  | AxiosSettled js_string bool
  | SpinnerSucceed js_string
  | SpinnerFail js_string
  | ConsoleLog style js_string
  | ConsoleLogTable table

text \<open>
  The state of the process: the events so far, and the code given to
  \<^verbatim>\<open>process.exit\<close> if it was called. A Node process that ends without calling it, with
  nothing raised, ends with code 0.
\<close>

record process =
  trace :: "event list"
  exited :: "nat option"

definition start :: process where
  "start = \<lparr>trace = [], exited = None\<rparr>"

definition emit :: "event \<Rightarrow> process \<Rightarrow> process" where
  "emit ev p = p\<lparr>trace := trace p @ [ev]\<rparr>"

definition console_log :: "style \<Rightarrow> js_string \<Rightarrow> process \<Rightarrow> process" where
  "console_log st s p = emit (ConsoleLog st s) p"

definition process_exit :: "nat \<Rightarrow> process \<Rightarrow> process" where
  "process_exit c p = p\<lparr>exited := Some c\<rparr>"

definition exit_code :: "process \<Rightarrow> nat" where
  "exit_code p = (case exited p of None \<Rightarrow> 0 | Some c \<Rightarrow> c)"

fun is_render :: "event \<Rightarrow> bool" where
  "is_render (ConsoleLog st s) = True"
| "is_render (ConsoleLogTable t) = True"
| "is_render ev = False"



text \<open>
  A statement of a function body runs on the process and either completes or raises;
  what it logged before raising stays logged. Statements run in order up to the first
  one that raises.
\<close>

type_synonym stmt = "process \<Rightarrow> js_error option \<times> process"

fun run_stmts :: "stmt list \<Rightarrow> stmt" where
  "run_stmts [] p = (None, p)"
| "run_stmts (s # ss) p =
     (case s p of (Some e, p') \<Rightarrow> (Some e, p') | (None, p') \<Rightarrow> run_stmts ss p')"

text \<open>\<^verbatim>\<open>console.log(chalk.st(text))\<close>, where evaluating the text may raise.\<close>

definition log_stmt :: "style \<Rightarrow> js_error + js_string \<Rightarrow> stmt" where
  "log_stmt st text p =
     (case text of Inl e \<Rightarrow> (Some e, p) | Inr s \<Rightarrow> (None, console_log st s p))"

text \<open>\<^verbatim>\<open>if (cond) { body }\<close>.\<close>

definition if_truthy :: "js_error + jsval \<Rightarrow> stmt \<Rightarrow> stmt" where
  "if_truthy cond body p =
     (case cond of
        Inl e \<Rightarrow> (Some e, p)
      | Inr v \<Rightarrow> if truthy v then body p else (None, p))"

subsection \<open>fetchUserData and fetchUserRepos\<close>

definition userUrl :: "js_string \<Rightarrow> js_string" where
  "userUrl username = lit ''https://api.github.com/users/'' @ username"

definition reposUrl :: "js_string \<Rightarrow> js_string" where
  "reposUrl username =
     lit ''https://api.github.com/users/'' @ username @ lit ''/repos?sort=updated&per_page=5''"

definition userNotFound :: "js_string \<Rightarrow> js_string" where
  "userNotFound username =
     lit ''User '' @ [apostrophe] @ username @ [apostrophe] @ lit '' not found on GitHub''"

definition fetchUserData :: "world \<Rightarrow> js_string \<Rightarrow> process \<Rightarrow> (js_error + jsval) \<times> process" where
  "fetchUserData w username p =
     (let url = userUrl username;
          p1 = emit (AxiosGet url) p
      in case axios_get w url of
           Resolved d \<Rightarrow> (Inr d, emit (AxiosSettled url True) p1)
         | Rejected e \<Rightarrow>
             (let p2 = emit (AxiosSettled url False) p1
              in if isAxiosError e \<and> response_status e = Some 404
                 then (Inl (Error (userNotFound username)), p2)
                 else (Inl (Error (lit ''Failed to fetch user data from GitHub API'')), p2)))"

definition fetchUserRepos :: "world \<Rightarrow> js_string \<Rightarrow> process \<Rightarrow> (js_error + jsval) \<times> process" where
  "fetchUserRepos w username p =
     (let url = reposUrl username;
          p1 = emit (AxiosGet url) p
      in case axios_get w url of
           Resolved d \<Rightarrow> (Inr d, emit (AxiosSettled url True) p1)
         | Rejected e \<Rightarrow>
             (Inl (Error (lit ''Failed to fetch repository data from GitHub API'')),
              emit (AxiosSettled url False) p1))"

subsection \<open>displayUserInfo\<close>

text \<open>\<^verbatim>\<open>`label${v.k}`\<close>.\<close>

definition template :: "world \<Rightarrow> string \<Rightarrow> jsval \<Rightarrow> string \<Rightarrow> js_error + js_string" where
  "template w label v k =
     (case getProp v k of
        Inl e \<Rightarrow> Inl e
      | Inr x \<Rightarrow> (case to_string w x of Inl e \<Rightarrow> Inl e | Inr s \<Rightarrow> Inr (lit label @ s)))"

text \<open>\<^verbatim>\<open>new Date(x).toLocaleDateString()\<close>.\<close>

definition localeDate :: "world \<Rightarrow> jsval \<Rightarrow> js_error + js_string" where
  "localeDate w x = (case x of JStr s \<Rightarrow> Inr (toLocaleDateString w s) | _ \<Rightarrow> dateOfNonString w x)"

definition accountCreated :: "world \<Rightarrow> jsval \<Rightarrow> js_error + js_string" where
  "accountCreated w userData =
     (case getProp userData ''created_at'' of
        Inl e \<Rightarrow> Inl e
      | Inr x \<Rightarrow>
          (case localeDate w x of
             Inl e \<Rightarrow> Inl e
           | Inr s \<Rightarrow> Inr (lit ''Account Created: '' @ s)))"

definition displayUserInfo :: "world \<Rightarrow> jsval \<Rightarrow> stmt" where
  "displayUserInfo w userData =
     run_stmts
       [log_stmt Bold (Inr (newline # lit ''User Information:'')),
        log_stmt Blue (template w ''Username: '' userData ''login''),
        if_truthy (getProp userData ''name'')
          (log_stmt Blue (template w ''Name: '' userData ''name'')),
        if_truthy (getProp userData ''bio'')
          (log_stmt Blue (template w ''Bio: '' userData ''bio'')),
        log_stmt Blue (template w ''Profile URL: '' userData ''html_url''),
        log_stmt Blue (accountCreated w userData),
        log_stmt Bold (Inr (newline # lit ''Stats:'')),
        log_stmt Green (template w ''Public Repositories: '' userData ''public_repos''),
        log_stmt Green (template w ''Followers: '' userData ''followers''),
        log_stmt Green (template w ''Following: '' userData ''following'')]"

subsection \<open>displayRepoInfo\<close>

definition newTable :: table where
  "newTable =
     \<lparr>head = [Styled WhiteBold (lit ''Repository''), Styled WhiteBold (lit ''Description''),
              Styled WhiteBold (lit ''Stars''), Styled WhiteBold (lit ''Forks''),
              Styled WhiteBold (lit ''Language'')],
      colWidths = [20, 30, 10, 10, 15],
      rows = []\<rparr>"

definition push :: "cell list \<Rightarrow> table \<Rightarrow> table" where
  "push r t = t\<lparr>rows := rows t @ [r]\<rparr>"

text \<open>\<^verbatim>\<open>chalk.cyan(repo.name)\<close>: chalk styles the text of its argument.\<close>

definition nameCell :: "world \<Rightarrow> jsval \<Rightarrow> js_error + cell" where
  "nameCell w repo =
     (case getProp repo ''name'' of
        Inl e \<Rightarrow> Inl e
      | Inr x \<Rightarrow> (case to_string w x of Inl e \<Rightarrow> Inl e | Inr s \<Rightarrow> Inr (Styled Cyan s)))"

text \<open>
  \<^verbatim>\<open>repo.description ? repo.description.substring(0, 27) +
  (repo.description.length > 27 ? '...' : '') : ''\<close>. Only a string has the method
  \<^verbatim>\<open>substring\<close>; calling it on another truthy value raises.
\<close>

definition descriptionCell :: "jsval \<Rightarrow> js_error + cell" where
  "descriptionCell repo =
     (case getProp repo ''description'' of
        Inl e \<Rightarrow> Inl e
      | Inr d \<Rightarrow>
          if truthy d
          then (case d of
                  JStr s \<Rightarrow>
                    Inr (Val (JStr (substring s 0 27 @ (if 27 < length s then lit ''...'' else []))))
                | _ \<Rightarrow> Inl (TypeError (NotAFunction ''repo.description.substring'')))
          else Inr (Val (JStr [])))"

text \<open>\<^verbatim>\<open>repo.language || 'N/A'\<close>.\<close>

definition languageCell :: "jsval \<Rightarrow> js_error + cell" where
  "languageCell repo =
     (case getProp repo ''language'' of
        Inl e \<Rightarrow> Inl e
      | Inr l \<Rightarrow> Inr (Val (if truthy l then l else JStr (lit ''N/A''))))"

definition valueCell :: "jsval \<Rightarrow> string \<Rightarrow> js_error + cell" where
  "valueCell repo k = (case getProp repo k of Inl e \<Rightarrow> Inl e | Inr x \<Rightarrow> Inr (Val x))"

text \<open>The array literal of a row: its elements are evaluated from left to right.\<close>

fun cells :: "(js_error + cell) list \<Rightarrow> js_error + cell list" where
  "cells [] = Inr []"
| "cells (c # cs) =
     (case c of
        Inl e \<Rightarrow> Inl e
      | Inr x \<Rightarrow> (case cells cs of Inl e \<Rightarrow> Inl e | Inr xs \<Rightarrow> Inr (x # xs)))"

definition repoRow :: "world \<Rightarrow> jsval \<Rightarrow> js_error + cell list" where
  "repoRow w repo =
     cells [nameCell w repo,
            descriptionCell repo,
            valueCell repo ''stargazers_count'',
            valueCell repo ''forks_count'',
            languageCell repo]"

text \<open>
  \<^verbatim>\<open>repos.forEach(repo => { table.push([...]) })\<close>. Only an array has the method
  \<^verbatim>\<open>forEach\<close>.
\<close>

fun push_rows :: "world \<Rightarrow> jsval list \<Rightarrow> table \<Rightarrow> js_error + table" where
  "push_rows w [] t = Inr t"
| "push_rows w (repo # repos) t =
     (case repoRow w repo of
        Inl e \<Rightarrow> Inl e
      | Inr r \<Rightarrow> push_rows w repos (push r t))"

definition forEach_push :: "world \<Rightarrow> jsval \<Rightarrow> table \<Rightarrow> js_error + table" where
  "forEach_push w repos t =
     (case repos of
        JArr xs \<Rightarrow> push_rows w xs t
      | _ \<Rightarrow> Inl (TypeError (NotAFunction ''repos.forEach'')))"

definition displayRepoInfo :: "world \<Rightarrow> jsval \<Rightarrow> stmt" where
  "displayRepoInfo w repos p =
     (case getProp repos ''length'' of
        Inl e \<Rightarrow> (Some e, p)
      | Inr n \<Rightarrow>
          if n = JNum (Integral 0)
          then (None, console_log Yellow (newline # lit ''No repositories found.'') p)
          else
            (let p1 = console_log Bold (newline # lit ''Top 5 Repositories:'') p
             in case forEach_push w repos newTable of
                  Inl e \<Rightarrow> (Some e, p1)
                | Inr t \<Rightarrow> (None, emit (ConsoleLogTable t) p1)))"

subsection \<open>The action of the command\<close>

text \<open>
  The callback given to \<^verbatim>\<open>.action\<close>. The \<^verbatim>\<open>try\<close> block holds the two fetches,
  \<^verbatim>\<open>spinner.succeed\<close> and the two display functions; the first error raised by any of
  them goes to the \<^verbatim>\<open>catch\<close> block.
\<close>

definition on_catch :: "world \<Rightarrow> js_error \<Rightarrow> process \<Rightarrow> process" where
  "on_catch w e p = process_exit 1 (emit (SpinnerFail (message w e)) p)"

definition action :: "world \<Rightarrow> js_string \<Rightarrow> process \<Rightarrow> process" where
  "action w username p =
     (let p0 = emit (SpinnerStart (lit ''Fetching GitHub data...'')) p
      in case fetchUserData w username p0 of
           (Inl e, p1) \<Rightarrow> on_catch w e p1
         | (Inr userData, p1) \<Rightarrow>
             (case fetchUserRepos w username p1 of
                (Inl e, p2) \<Rightarrow> on_catch w e p2
              | (Inr userRepos, p2) \<Rightarrow>
                  (let p3 = emit (SpinnerSucceed (lit ''Data fetched successfully!'')) p2
                   in case displayUserInfo w userData p3 of
                        (Some e, p4) \<Rightarrow> on_catch w e p4
                      | (None, p4) \<Rightarrow>
                          (case displayRepoInfo w userRepos p4 of
                             (Some e, p5) \<Rightarrow> on_catch w e p5
                           | (None, p5) \<Rightarrow> p5))))"

subsection \<open>The output for a well-shaped value\<close>

text \<open>
  Names for the row and the lines that the display functions produce from a value of the
  shape of an interface. They serve to state the lemmas below; the theorems of the
  claims spell the content out.
\<close>

definition shownDescription :: "js_string option \<Rightarrow> js_string" where
  "shownDescription d =
     (case d of None \<Rightarrow> [] | Some s \<Rightarrow> if 27 < length s then take 27 s @ lit ''...'' else s)"

definition shownLanguage :: "js_string option \<Rightarrow> js_string" where
  "shownLanguage l = (case l of None \<Rightarrow> lit ''N/A'' | Some s \<Rightarrow> if s = [] then lit ''N/A'' else s)"

definition shapedRow :: "GitHubRepo \<Rightarrow> cell list" where
  "shapedRow r =
     [Styled Cyan (repo_name r),
      Val (JStr (shownDescription (description r))),
      Val (JNum (Integral (int (stargazers_count r)))),
      Val (JNum (Integral (int (forks_count r)))),
      Val (JStr (shownLanguage (language r)))]"

definition optionalLine :: "string \<Rightarrow> js_string option \<Rightarrow> event list" where
  "optionalLine label v =
     (case v of None \<Rightarrow> [] | Some s \<Rightarrow> if s = [] then [] else [ConsoleLog Blue (lit label @ s)])"

definition shapedLines :: "world \<Rightarrow> GitHubUser \<Rightarrow> event list" where
  "shapedLines w u =
     [ConsoleLog Bold (newline # lit ''User Information:''),
      ConsoleLog Blue (lit ''Username: '' @ login u)] @
     optionalLine ''Name: '' (name u) @
     optionalLine ''Bio: '' (bio u) @
     [ConsoleLog Blue (lit ''Profile URL: '' @ html_url u),
      ConsoleLog Blue (lit ''Account Created: '' @ toLocaleDateString w (created_at u)),
      ConsoleLog Bold (newline # lit ''Stats:''),
      ConsoleLog Green
        (lit ''Public Repositories: '' @ numberToString w (Integral (int (public_repos u)))),
      ConsoleLog Green (lit ''Followers: '' @ numberToString w (Integral (int (followers u)))),
      ConsoleLog Green (lit ''Following: '' @ numberToString w (Integral (int (following u))))]"

subsection \<open>Example data\<close>

text \<open>
  Concrete inputs on which the theorems below are instantiated: the JSON object of a
  record (with some further properties, as the service sends them), a host, and networks
  that answer in different ways.
\<close>

definition opt_json :: "js_string option \<Rightarrow> jsval" where
  "opt_json v = (case v of None \<Rightarrow> JNull | Some s \<Rightarrow> JStr s)"

definition user_json :: "GitHubUser \<Rightarrow> jsval" where
  "user_json u =
     JObj [(lit ''login'', JStr (login u)),
           (lit ''avatar_url'', JStr (avatar_url u)),
           (lit ''html_url'', JStr (html_url u)),
           (lit ''site_admin'', JBool False),
           (lit ''name'', opt_json (name u)),
           (lit ''bio'', opt_json (bio u)),
           (lit ''public_repos'', JNum (Integral (int (public_repos u)))),
           (lit ''followers'', JNum (Integral (int (followers u)))),
           (lit ''following'', JNum (Integral (int (following u)))),
           (lit ''created_at'', JStr (created_at u))]"

definition repo_json :: "GitHubRepo \<Rightarrow> jsval" where
  "repo_json r =
     JObj [(lit ''name'', JStr (repo_name r)),
           (lit ''private'', JBool False),
           (lit ''html_url'', JStr (repo_html_url r)),
           (lit ''description'', opt_json (description r)),
           (lit ''stargazers_count'', JNum (Integral (int (stargazers_count r)))),
           (lit ''language'', opt_json (language r)),
           (lit ''forks_count'', JNum (Integral (int (forks_count r))))]"

definition example_user :: GitHubUser where
  "example_user =
     \<lparr>login = lit ''octocat'', name = Some (lit ''The Octocat''), bio = None,
      avatar_url = lit ''https://avatars.githubusercontent.com/u/583231'',
      public_repos = 8, followers = 120, following = 9,
      created_at = lit ''2011-01-25T18:44:36Z'',
      html_url = lit ''https://github.com/octocat''\<rparr>"

definition example_repo :: GitHubRepo where
  "example_repo =
     \<lparr>repo_name = lit ''stats'',
      description = Some (lit ''A command line tool that shows statistics''),
      repo_html_url = lit ''https://github.com/octocat/stats'',
      stargazers_count = 3, forks_count = 1, language = None\<rparr>"

fun example_message :: "type_error \<Rightarrow> js_string" where
  "example_message (ReadOfNull k) =
     lit ''Cannot read properties of null (reading '' @ [apostrophe] @ lit k @ [apostrophe] @ lit '')''"
| "example_message (ReadOfUndefined k) =
     lit ''Cannot read properties of undefined (reading '' @ [apostrophe] @ lit k @ [apostrophe]
       @ lit '')''"
| "example_message (NotAFunction m) = lit m @ lit '' is not a function''"
| "example_message NotPrimitive = lit ''Cannot convert object to primitive value''"

definition example_host :: "(js_string \<Rightarrow> jsval settled) \<Rightarrow> world" where
  "example_host get =
     \<lparr>axios_get = get,
      toLocaleDateString = (\<lambda>s. lit ''1/25/2011''),
      dateOfNonString = (\<lambda>v. Inr (lit ''Invalid Date'')),
      numberToStringHost = (\<lambda>n. lit ''1e+21''),
      typeErrorMessage = example_message\<rparr>"

definition serve :: "js_string \<Rightarrow> jsval settled \<Rightarrow> jsval settled \<Rightarrow> js_string \<Rightarrow> jsval settled" where
  "serve username profile repos url = (if url = reposUrl username then repos else profile)"

definition example_world :: world where
  "example_world =
     example_host
       (serve (lit ''octocat'') (Resolved (user_json example_user))
          (Resolved (JArr [repo_json example_repo,
                           repo_json (example_repo\<lparr>language := Some (lit ''TypeScript'')\<rparr>)])))"

definition world_no_user :: world where
  "world_no_user = example_host (\<lambda>url. Rejected (AxiosError (Some 404)))"

definition world_offline :: world where
  "world_offline = example_host (\<lambda>url. Rejected (AxiosError None))"

definition world_repos_down :: world where
  "world_repos_down =
     example_host
       (serve (lit ''octocat'') (Resolved (user_json example_user))
          (Rejected (AxiosError (Some 404))))"

definition world_html :: world where
  "world_html = example_host (\<lambda>url. Resolved (JStr (lit ''<!DOCTYPE html>'')))"

definition world_fragment :: world where
  "world_fragment = example_host (\<lambda>url. Resolved (user_json example_user))"


definition world_null :: world where
  "world_null = example_host (\<lambda>url. Resolved JNull)"

section \<open>Basic facts\<close>

lemma lit_Cons: "lit (c # cs) = of_char c # lit cs"
  by (simp add: lit_def)

lemma length_lit: "length (lit s) = length s"
  by (simp add: lit_def)

lemma substring_0: "0 \<le> n \<Longrightarrow> substring s 0 n = take (nat n) s"
  by (auto simp: substring_def Let_def min_def max_def)

lemma log_stmt_Inr: "log_stmt st (Inr s) p = (None, p\<lparr>trace := trace p @ [ConsoleLog st s]\<rparr>)"
  by (simp add: log_stmt_def console_log_def emit_def)

lemma optional_stmt:
  assumes "optional_string x v"
  shows "if_truthy (Inr x)
           (log_stmt Blue (case to_string w x of Inl e \<Rightarrow> Inl e | Inr s \<Rightarrow> Inr (lit label @ s))) p
         = (None, p\<lparr>trace := trace p @ optionalLine label v\<rparr>)"
proof (cases v)
  case None
  with assms show ?thesis
    by (auto simp: if_truthy_def optionalLine_def optional_string_def)
next
  case (Some s)
  with assms have "x = JStr s" by (simp add: optional_string_def)
  with Some show ?thesis
    by (simp add: if_truthy_def optionalLine_def log_stmt_Inr)
qed

lemma displayUserInfo_shaped:
  assumes "shaped_GitHubUser v u"
  shows "displayUserInfo w v p = (None, p\<lparr>trace := trace p @ shapedLines w u\<rparr>)"
proof -
  from assms obtain kvs where v: "v = JObj kvs"
    and f: "own kvs ''login'' = JStr (login u)"
       "optional_string (own kvs ''name'') (name u)"
       "optional_string (own kvs ''bio'') (bio u)"
       "own kvs ''public_repos'' = JNum (Integral (int (public_repos u)))"
       "own kvs ''followers'' = JNum (Integral (int (followers u)))"
       "own kvs ''following'' = JNum (Integral (int (following u)))"
       "own kvs ''created_at'' = JStr (created_at u)"
       "own kvs ''html_url'' = JStr (html_url u)"
    by (auto simp: shaped_GitHubUser_def split: jsval.splits)
  show ?thesis
    unfolding v displayUserInfo_def
    by (simp add: optional_stmt [OF f(2)] optional_stmt [OF f(3)] f(1,4-8)
        template_def accountCreated_def localeDate_def log_stmt_Inr shapedLines_def)
qed

lemma repoRow_shaped:
  assumes "shaped_GitHubRepo v r"
  shows "repoRow w v = Inr (shapedRow r)"
proof -
  from assms obtain kvs where v: "v = JObj kvs"
    and f: "own kvs ''name'' = JStr (repo_name r)"
       "optional_string (own kvs ''description'') (description r)"
       "own kvs ''stargazers_count'' = JNum (Integral (int (stargazers_count r)))"
       "own kvs ''forks_count'' = JNum (Integral (int (forks_count r)))"
       "optional_string (own kvs ''language'') (language r)"
    by (auto simp: shaped_GitHubRepo_def split: jsval.splits)
  have d: "descriptionCell (JObj kvs) = Inr (Val (JStr (shownDescription (description r))))"
  proof (cases "description r")
    case None
    with f(2) show ?thesis
      by (auto simp: descriptionCell_def shownDescription_def optional_string_def)
  next
    case (Some s)
    with f(2) have "own kvs ''description'' = JStr s" by (simp add: optional_string_def)
    with Some show ?thesis
      by (simp add: descriptionCell_def shownDescription_def substring_0)
  qed
  have l: "languageCell (JObj kvs) = Inr (Val (JStr (shownLanguage (language r))))"
  proof (cases "language r")
    case None
    with f(5) show ?thesis
      by (auto simp: languageCell_def shownLanguage_def optional_string_def)
  next
    case (Some s)
    with f(5) have "own kvs ''language'' = JStr s" by (simp add: optional_string_def)
    with Some show ?thesis
      by (simp add: languageCell_def shownLanguage_def)
  qed
  show ?thesis
    unfolding v repoRow_def
    by (simp add: d l nameCell_def valueCell_def f(1,3,4) shapedRow_def)
qed

lemma push_rows_shaped:
  "list_all2 shaped_GitHubRepo vs rs \<Longrightarrow>
   push_rows w vs t = Inr (t\<lparr>rows := rows t @ map shapedRow rs\<rparr>)"
proof (induction vs rs arbitrary: t rule: list_all2_induct)
  case Nil
  then show ?case by simp
next
  case (Cons v vs r rs)
  then show ?case by (simp add: repoRow_shaped push_def)
qed

lemma displayRepoInfo_empty:
  "displayRepoInfo w (JArr []) p =
     (None, p\<lparr>trace := trace p @ [ConsoleLog Yellow (newline # lit ''No repositories found.'')]\<rparr>)"
  by (simp add: displayRepoInfo_def console_log_def emit_def)

lemma displayRepoInfo_shaped:
  assumes "list_all2 shaped_GitHubRepo vs rs" and "rs \<noteq> []"
  shows "displayRepoInfo w (JArr vs) p =
     (None, p\<lparr>trace := trace p @
        [ConsoleLog Bold (newline # lit ''Top 5 Repositories:''),
         ConsoleLogTable (newTable\<lparr>rows := map shapedRow rs\<rparr>)]\<rparr>)"
proof -
  from assms have "vs \<noteq> []" by auto
  then show ?thesis
    by (simp add: displayRepoInfo_def forEach_push_def push_rows_shaped [OF assms(1)]
        console_log_def emit_def newTable_def)
qed

lemma log_stmt_renders:
  "\<exists>evs. snd (log_stmt st t p) = p\<lparr>trace := trace p @ evs\<rparr> \<and> list_all is_render evs"
proof (cases t)
  case (Inl e)
  then show ?thesis by (intro exI[of _ "[]"]) (simp add: log_stmt_def)
next
  case (Inr s)
  then show ?thesis by (intro exI[of _ "[ConsoleLog st s]"]) (simp add: log_stmt_Inr)
qed

lemma if_truthy_renders:
  assumes "\<And>q. \<exists>evs. snd (body q) = q\<lparr>trace := trace q @ evs\<rparr> \<and> list_all is_render evs"
  shows "\<exists>evs. snd (if_truthy c body p) = p\<lparr>trace := trace p @ evs\<rparr> \<and> list_all is_render evs"
proof (cases c)
  case (Inl e)
  then show ?thesis by (intro exI[of _ "[]"]) (simp add: if_truthy_def)
next
  case (Inr v)
  show ?thesis
  proof (cases "truthy v")
    case True
    with Inr assms [of p] show ?thesis by (simp add: if_truthy_def)
  next
    case False
    with Inr show ?thesis by (intro exI[of _ "[]"]) (simp add: if_truthy_def)
  qed
qed

lemma run_stmts_renders:
  assumes "\<And>s q. s \<in> set ss \<Longrightarrow>
             \<exists>evs. snd (s q) = q\<lparr>trace := trace q @ evs\<rparr> \<and> list_all is_render evs"
  shows "\<exists>evs. snd (run_stmts ss p) = p\<lparr>trace := trace p @ evs\<rparr> \<and> list_all is_render evs"
  using assms
proof (induction ss arbitrary: p)
  case Nil
  show ?case by (intro exI[of _ "[]"]) simp
next
  case (Cons s ss)
  from Cons.prems [of s p] obtain e1 where
    e1: "snd (s p) = p\<lparr>trace := trace p @ e1\<rparr>" "list_all is_render e1"
    by auto
  obtain r p' where sp: "s p = (r, p')" by (cases "s p")
  with e1 have p': "p' = p\<lparr>trace := trace p @ e1\<rparr>" by simp
  show ?case
  proof (cases r)
    case (Some e)
    with sp p' e1(2) show ?thesis by (intro exI[of _ e1]) simp
  next
    case None
    from Cons.IH [of p'] Cons.prems obtain e2 where
      e2: "snd (run_stmts ss p') = p'\<lparr>trace := trace p' @ e2\<rparr>" "list_all is_render e2"
      by auto
    with None sp p' e1(2) show ?thesis by (intro exI[of _ "e1 @ e2"]) simp
  qed
qed

lemma displayUserInfo_renders:
  "\<exists>evs. snd (displayUserInfo w v p) = p\<lparr>trace := trace p @ evs\<rparr> \<and> list_all is_render evs"
  unfolding displayUserInfo_def
  by (rule run_stmts_renders) (auto intro: log_stmt_renders if_truthy_renders)

lemma displayRepoInfo_renders:
  "\<exists>evs. snd (displayRepoInfo w v p) = p\<lparr>trace := trace p @ evs\<rparr> \<and> list_all is_render evs"
proof (cases "getProp v ''length''")
  case (Inl e)
  then show ?thesis by (intro exI[of _ "[]"]) (simp add: displayRepoInfo_def)
next
  case (Inr n)
  show ?thesis
  proof (cases "n = JNum (Integral 0)")
    case True
    with Inr show ?thesis
      by (intro exI[of _ "[ConsoleLog Yellow (newline # lit ''No repositories found.'')]"])
         (simp add: displayRepoInfo_def console_log_def emit_def)
  next
    case False
    show ?thesis
    proof (cases "forEach_push w v newTable")
      case (Inl e)
      with Inr False show ?thesis
        by (intro exI[of _ "[ConsoleLog Bold (newline # lit ''Top 5 Repositories:'')]"])
           (simp add: displayRepoInfo_def console_log_def emit_def)
    next
      case t: (Inr t)
      with Inr False show ?thesis
        by (intro exI[of _ "[ConsoleLog Bold (newline # lit ''Top 5 Repositories:''),
                             ConsoleLogTable t]"])
           (simp add: displayRepoInfo_def console_log_def emit_def)
    qed
  qed
qed

lemma fetchUserData_resolved:
  "axios_get w (userUrl u) = Resolved d \<Longrightarrow>
   fetchUserData w u p =
     (Inr d, p\<lparr>trace := trace p @ [AxiosGet (userUrl u), AxiosSettled (userUrl u) True]\<rparr>)"
  by (simp add: fetchUserData_def emit_def Let_def)

lemma fetchUserData_rejected:
  "axios_get w (userUrl u) = Rejected e \<Longrightarrow>
   fetchUserData w u p =
     (Inl (Error (if e = AxiosError (Some 404) then userNotFound u
                  else lit ''Failed to fetch user data from GitHub API'')),
      p\<lparr>trace := trace p @ [AxiosGet (userUrl u), AxiosSettled (userUrl u) False]\<rparr>)"
  by (cases e) (simp_all add: fetchUserData_def emit_def Let_def)

lemma fetchUserRepos_resolved:
  "axios_get w (reposUrl u) = Resolved d \<Longrightarrow>
   fetchUserRepos w u p =
     (Inr d, p\<lparr>trace := trace p @ [AxiosGet (reposUrl u), AxiosSettled (reposUrl u) True]\<rparr>)"
  by (simp add: fetchUserRepos_def emit_def Let_def)

lemma fetchUserRepos_rejected:
  "axios_get w (reposUrl u) = Rejected e \<Longrightarrow>
   fetchUserRepos w u p =
     (Inl (Error (lit ''Failed to fetch repository data from GitHub API'')),
      p\<lparr>trace := trace p @ [AxiosGet (reposUrl u), AxiosSettled (reposUrl u) False]\<rparr>)"
  by (simp add: fetchUserRepos_def emit_def Let_def)

lemma userNotFound_not_generic:
  "userNotFound u \<noteq> lit ''Failed to fetch user data from GitHub API''"
  "userNotFound u \<noteq> lit ''Failed to fetch repository data from GitHub API''"
  by (simp_all add: userNotFound_def lit_Cons)

lemma userUrl_neq_reposUrl: "userUrl u \<noteq> reposUrl u"
  by (simp add: userUrl_def reposUrl_def lit_def)

lemma action_user_rejected:
  "axios_get w (userUrl u) = Rejected e \<Longrightarrow>
   action w u p =
     p\<lparr>trace := trace p @
        [SpinnerStart (lit ''Fetching GitHub data...''),
         AxiosGet (userUrl u), AxiosSettled (userUrl u) False,
         SpinnerFail (if e = AxiosError (Some 404) then userNotFound u
                      else lit ''Failed to fetch user data from GitHub API'')],
       exited := Some 1\<rparr>"
  by (simp add: action_def fetchUserData_rejected on_catch_def process_exit_def emit_def)

lemma action_repos_rejected:
  "axios_get w (userUrl u) = Resolved d \<Longrightarrow>
   axios_get w (reposUrl u) = Rejected e \<Longrightarrow>
   action w u p =
     p\<lparr>trace := trace p @
        [SpinnerStart (lit ''Fetching GitHub data...''),
         AxiosGet (userUrl u), AxiosSettled (userUrl u) True,
         AxiosGet (reposUrl u), AxiosSettled (reposUrl u) False,
         SpinnerFail (lit ''Failed to fetch repository data from GitHub API'')],
       exited := Some 1\<rparr>"
  by (simp add: action_def fetchUserData_resolved fetchUserRepos_rejected on_catch_def
      process_exit_def emit_def)

lemma action_resolved:
  "axios_get w (userUrl u) = Resolved d \<Longrightarrow>
   axios_get w (reposUrl u) = Resolved r \<Longrightarrow>
   action w u p =
     (case displayUserInfo w d
             (p\<lparr>trace := trace p @
                [SpinnerStart (lit ''Fetching GitHub data...''),
                 AxiosGet (userUrl u), AxiosSettled (userUrl u) True,
                 AxiosGet (reposUrl u), AxiosSettled (reposUrl u) True,
                 SpinnerSucceed (lit ''Data fetched successfully!'')]\<rparr>) of
        (Some e, p4) \<Rightarrow> on_catch w e p4
      | (None, p4) \<Rightarrow>
          (case displayRepoInfo w r p4 of
             (Some e, p5) \<Rightarrow> on_catch w e p5
           | (None, p5) \<Rightarrow> p5))"
  by (simp add: action_def fetchUserData_resolved fetchUserRepos_resolved emit_def)

lemma not_render_notin: "list_all is_render evs \<Longrightarrow> \<not> is_render ev \<Longrightarrow> ev \<notin> set evs"
  by (auto simp: list_all_iff)

lemma action_resolved_trace:
  assumes "axios_get w (userUrl u) = Resolved d"
    and "axios_get w (reposUrl u) = Resolved r"
  shows "\<exists>evs. trace (action w u p) =
           trace p @
           [SpinnerStart (lit ''Fetching GitHub data...''),
            AxiosGet (userUrl u), AxiosSettled (userUrl u) True,
            AxiosGet (reposUrl u), AxiosSettled (reposUrl u) True,
            SpinnerSucceed (lit ''Data fetched successfully!'')] @ evs
         \<and> (\<forall>url. AxiosGet url \<notin> set evs)"
proof -
  let ?p3 = "p\<lparr>trace := trace p @
                [SpinnerStart (lit ''Fetching GitHub data...''),
                 AxiosGet (userUrl u), AxiosSettled (userUrl u) True,
                 AxiosGet (reposUrl u), AxiosSettled (reposUrl u) True,
                 SpinnerSucceed (lit ''Data fetched successfully!'')]\<rparr>"
  obtain r1 p4 where d1: "displayUserInfo w d ?p3 = (r1, p4)"
    by (cases "displayUserInfo w d ?p3")
  from displayUserInfo_renders [of w d ?p3] d1 obtain e1 where
    e1: "p4 = ?p3\<lparr>trace := trace ?p3 @ e1\<rparr>" "list_all is_render e1"
    by auto
  have n1: "\<And>url. AxiosGet url \<notin> set e1"
    using e1(2) by (rule not_render_notin) simp
  show ?thesis
  proof (cases r1)
    case (Some e)
    have "trace (action w u p) = trace ?p3 @ e1 @ [SpinnerFail (message w e)]"
      using d1 Some e1(1)
      by (simp add: action_resolved [OF assms] on_catch_def process_exit_def emit_def)
    with n1 show ?thesis
      by (intro exI[of _ "e1 @ [SpinnerFail (message w e)]"]) simp
  next
    case None
    obtain r2 p5 where d2: "displayRepoInfo w r p4 = (r2, p5)"
      by (cases "displayRepoInfo w r p4")
    from displayRepoInfo_renders [of w r p4] d2 obtain e2 where
      e2: "p5 = p4\<lparr>trace := trace p4 @ e2\<rparr>" "list_all is_render e2"
      by auto
    have n2: "\<And>url. AxiosGet url \<notin> set e2"
      using e2(2) by (rule not_render_notin) simp
    show ?thesis
    proof (cases r2)
      case (Some e)
      have "trace (action w u p) = trace ?p3 @ e1 @ e2 @ [SpinnerFail (message w e)]"
        using d1 d2 None Some e1(1) e2(1)
        by (simp add: action_resolved [OF assms] on_catch_def process_exit_def emit_def)
      with n1 n2 show ?thesis
        by (intro exI[of _ "e1 @ e2 @ [SpinnerFail (message w e)]"]) simp
    next
      case n: None
      have "trace (action w u p) = trace ?p3 @ e1 @ e2"
        using d1 d2 None n e1(1) e2(1)
        by (simp add: action_resolved [OF assms])
      with n1 n2 show ?thesis
        by (intro exI[of _ "e1 @ e2"]) simp
    qed
  qed
qed

lemma action_shaped:
  assumes "axios_get w (userUrl u) = Resolved v"
    and "shaped_GitHubUser v usr"
    and "axios_get w (reposUrl u) = Resolved (JArr vs)"
    and "list_all2 shaped_GitHubRepo vs rs"
  shows "action w u p =
     p\<lparr>trace := trace p @
        [SpinnerStart (lit ''Fetching GitHub data...''),
         AxiosGet (userUrl u), AxiosSettled (userUrl u) True,
         AxiosGet (reposUrl u), AxiosSettled (reposUrl u) True,
         SpinnerSucceed (lit ''Data fetched successfully!'')] @
        shapedLines w usr @
        (if rs = [] then [ConsoleLog Yellow (newline # lit ''No repositories found.'')]
         else [ConsoleLog Bold (newline # lit ''Top 5 Repositories:''),
               ConsoleLogTable (newTable\<lparr>rows := map shapedRow rs\<rparr>)])\<rparr>"
proof (cases "rs = []")
  case True
  with assms(4) have "vs = []" by simp
  with True show ?thesis
    by (simp add: action_resolved [OF assms(1,3)] displayUserInfo_shaped [OF assms(2)]
        displayRepoInfo_empty)
next
  case False
  then show ?thesis
    by (simp add: action_resolved [OF assms(1,3)] displayUserInfo_shaped [OF assms(2)]
        displayRepoInfo_shaped [OF assms(4) False])
qed

lemma shaped_user_json: "shaped_GitHubUser (user_json u) u"
  by (simp add: shaped_GitHubUser_def user_json_def own_def lit_def optional_string_def opt_json_def
      split: option.splits)

lemma shaped_repo_json: "shaped_GitHubRepo (repo_json r) r"
  by (simp add: shaped_GitHubRepo_def repo_json_def own_def lit_def optional_string_def opt_json_def
      split: option.splits)

lemma shaped_repos_json: "list_all2 shaped_GitHubRepo (map repo_json rs) rs"
  by (induction rs) (simp_all add: shaped_repo_json)

lemma serve_user: "serve u a b (userUrl u) = a"
  using userUrl_neq_reposUrl [of u] by (simp add: serve_def)

lemma serve_repos: "serve u a b (reposUrl u) = b"
  by (simp add: serve_def)

lemma axios_get_host: "axios_get (example_host get) = get"
  by (simp add: example_host_def)

lemma numberToString_safe: "n < 2 ^ 53 \<Longrightarrow> numberToString w (Integral (int n)) = decimal n"
  by (simp add: numberToString_def)

lemma example_lines:
  "shapedLines (example_host get) example_user =
     [ConsoleLog Bold (newline # lit ''User Information:''),
      ConsoleLog Blue (lit ''Username: octocat''),
      ConsoleLog Blue (lit ''Name: The Octocat''),
      ConsoleLog Blue (lit ''Profile URL: https://github.com/octocat''),
      ConsoleLog Blue (lit ''Account Created: 1/25/2011''),
      ConsoleLog Bold (newline # lit ''Stats:''),
      ConsoleLog Green (lit ''Public Repositories: 8''),
      ConsoleLog Green (lit ''Followers: 120''),
      ConsoleLog Green (lit ''Following: 9'')]"
  by (simp add: shapedLines_def optionalLine_def example_user_def example_host_def
      numberToString_def lit_def digit_def decimal.simps)

lemma user_json_not_array:
  "displayRepoInfo w (user_json u) p =
     (Some (TypeError (NotAFunction ''repos.forEach'')),
      p\<lparr>trace := trace p @ [ConsoleLog Bold (newline # lit ''Top 5 Repositories:'')]\<rparr>)"
  by (simp add: displayRepoInfo_def user_json_def own_def lit_def forEach_push_def
      console_log_def emit_def)

section \<open>The claims\<close>

text \<open>
  C1. In the table that \<^verbatim>\<open>displayRepoInfo\<close> logs for a list of repositories, the
  Description cell of a repository whose description has more than 27 code units is its
  first 27 code units followed by the three code units \<^verbatim>\<open>...\<close>; a description of 27 code
  units or fewer is the cell unchanged; the empty description, and the description that
  is \<^verbatim>\<open>null\<close> or missing, give the empty string.
\<close>

theorem description_cell_truncated_to_27:
  assumes "list_all2 shaped_GitHubRepo vs repos" and "i < length repos"
  shows "\<exists>t. displayRepoInfo w (JArr vs) p =
               (None, p\<lparr>trace := trace p @
                  [ConsoleLog Bold (newline # lit ''Top 5 Repositories:''), ConsoleLogTable t]\<rparr>)
             \<and> (\<forall>d. description (repos ! i) = Some d \<and> 27 < length d
                    \<longrightarrow> rows t ! i ! 1 = Val (JStr (take 27 d @ lit ''...'')))
             \<and> (\<forall>d. description (repos ! i) = Some d \<and> length d \<le> 27
                    \<longrightarrow> rows t ! i ! 1 = Val (JStr d))
             \<and> (description (repos ! i) = Some [] \<longrightarrow> rows t ! i ! 1 = Val (JStr []))
             \<and> (description (repos ! i) = None \<longrightarrow> rows t ! i ! 1 = Val (JStr []))
             \<and> length (lit ''...'') = 3"
proof -
  from assms(2) have ne: "repos \<noteq> []" by auto
  let ?t = "newTable\<lparr>rows := map shapedRow repos\<rparr>"
  have cell: "rows ?t ! i ! 1 = Val (JStr (shownDescription (description (repos ! i))))"
    using assms(2) by (simp add: shapedRow_def)
  have out: "displayRepoInfo w (JArr vs) p =
               (None, p\<lparr>trace := trace p @
                  [ConsoleLog Bold (newline # lit ''Top 5 Repositories:''), ConsoleLogTable ?t]\<rparr>)"
    by (rule displayRepoInfo_shaped [OF assms(1) ne])
  show ?thesis
    unfolding out using cell
    by (intro exI[of _ ?t]) (auto simp: shownDescription_def length_lit)
qed

theorem description_cell_truncated_to_27_witness:
  "list_all2 shaped_GitHubRepo
     (map repo_json
        [example_repo,
         example_repo\<lparr>description := Some (lit ''abcdefghijklmnopqrstuvwxyz0'')\<rparr>,
         example_repo\<lparr>description := Some []\<rparr>,
         example_repo\<lparr>description := None\<rparr>])
     [example_repo,
      example_repo\<lparr>description := Some (lit ''abcdefghijklmnopqrstuvwxyz0'')\<rparr>,
      example_repo\<lparr>description := Some []\<rparr>,
      example_repo\<lparr>description := None\<rparr>]
   \<and> (\<exists>t. displayRepoInfo example_world
             (JArr (map repo_json
                [example_repo,
                 example_repo\<lparr>description := Some (lit ''abcdefghijklmnopqrstuvwxyz0'')\<rparr>,
                 example_repo\<lparr>description := Some []\<rparr>,
                 example_repo\<lparr>description := None\<rparr>])) start
           = (None, start\<lparr>trace := trace start @
                [ConsoleLog Bold (newline # lit ''Top 5 Repositories:''), ConsoleLogTable t]\<rparr>)
         \<and> 27 < length (lit ''A command line tool that shows statistics'')
         \<and> rows t ! 0 ! 1 = Val (JStr (lit ''A command line tool that sh...''))
         \<and> length (lit ''abcdefghijklmnopqrstuvwxyz0'') \<le> 27
         \<and> rows t ! 1 ! 1 = Val (JStr (lit ''abcdefghijklmnopqrstuvwxyz0''))
         \<and> rows t ! 2 ! 1 = Val (JStr [])
         \<and> rows t ! 3 ! 1 = Val (JStr []))"
proof -
  let ?rs = "[example_repo,
              example_repo\<lparr>description := Some (lit ''abcdefghijklmnopqrstuvwxyz0'')\<rparr>,
              example_repo\<lparr>description := Some []\<rparr>,
              example_repo\<lparr>description := None\<rparr>]"
  have sh: "list_all2 shaped_GitHubRepo (map repo_json ?rs) ?rs"
    by (rule shaped_repos_json)
  have i0: "0 < length ?rs" and i1: "1 < length ?rs" and i2: "2 < length ?rs"
    and i3: "3 < length ?rs"
    by simp_all
  have d0: "description (?rs ! 0) = Some (lit ''A command line tool that shows statistics'')"
    by (simp add: example_repo_def)
  have d1: "description (?rs ! 1) = Some (lit ''abcdefghijklmnopqrstuvwxyz0'')"
    by simp
  have d2: "description (?rs ! 2) = Some []"
    by simp
  have d3: "description (?rs ! 3) = None"
    by simp
  have len0: "27 < length (lit ''A command line tool that shows statistics'')"
    by (simp add: length_lit)
  have len1: "length (lit ''abcdefghijklmnopqrstuvwxyz0'') \<le> 27"
    by (simp add: length_lit)
  have tk: "take 27 (lit ''A command line tool that shows statistics'') @ lit ''...''
            = lit ''A command line tool that sh...''"
    by (simp add: lit_def)
  let ?out = "\<lambda>t. displayRepoInfo example_world (JArr (map repo_json ?rs)) start
           = (None, start\<lparr>trace := trace start @
                [ConsoleLog Bold (newline # lit ''Top 5 Repositories:''), ConsoleLogTable t]\<rparr>)"
  from description_cell_truncated_to_27 [OF sh i0, of example_world start] d0 len0
  obtain t where t: "?out t"
    and c0: "rows t ! 0 ! 1 = Val (JStr (lit ''A command line tool that sh...''))"
    unfolding tk [symmetric] by blast
  from description_cell_truncated_to_27 [OF sh i1, of example_world start] d1 len1
  obtain t1 where t1: "?out t1"
    and c1: "rows t1 ! 1 ! 1 = Val (JStr (lit ''abcdefghijklmnopqrstuvwxyz0''))"
    by blast
  from description_cell_truncated_to_27 [OF sh i2, of example_world start] d2
  obtain t2 where t2: "?out t2" and c2: "rows t2 ! 2 ! 1 = Val (JStr [])"
    by blast
  from description_cell_truncated_to_27 [OF sh i3, of example_world start] d3
  obtain t3 where t3: "?out t3" and c3: "rows t3 ! 3 ! 1 = Val (JStr [])"
    by blast
  from t t1 t2 t3 have "t1 = t" and "t2 = t" and "t3 = t" by (simp_all add: start_def)
  with t c0 c1 c2 c3 len0 len1 sh show ?thesis by blast
qed

text \<open>
  C2, as stated, fails on a response whose body does not decode to a profile (here the
  text of an HTML page, which axios hands on as a string): \<^verbatim>\<open>fetchUserData\<close> returns the
  body as it is and raises nothing.
\<close>

theorem undecodable_body_counterexample:
  "axios_get world_html (userUrl (lit ''octocat'')) = Resolved (JStr (lit ''<!DOCTYPE html>''))
   \<and> fst (fetchUserData world_html (lit ''octocat'') start) = Inr (JStr (lit ''<!DOCTYPE html>''))
   \<and> fst (fetchUserData world_html (lit ''octocat'') start)
       \<noteq> Inl (Error (lit ''Failed to fetch user data from GitHub API''))"
proof -
  have h: "axios_get world_html (userUrl (lit ''octocat'')) = Resolved (JStr (lit ''<!DOCTYPE html>''))"
    by (simp add: world_html_def axios_get_host)
  then show ?thesis by (simp add: fetchUserData_resolved)
qed

text \<open>
  C2, amended. \<^verbatim>\<open>fetchUserData\<close> fails with the not-found error, whose message is
  \<^verbatim>\<open>User '<username>' not found on GitHub\<close>, exactly when the request is rejected with
  an Axios error whose response has status 404; every other rejection fails with the
  generic message \<^verbatim>\<open>Failed to fetch user data from GitHub API\<close>; a response that arrives
  is returned as a success, whatever its body. The not-found message contains the
  username and the words \<^verbatim>\<open>not found\<close>, and differs from the generic one.
\<close>

theorem user_fetch_not_found_only_on_404:
  "(fst (fetchUserData w username p) = Inl (Error (userNotFound username))
      \<longleftrightarrow> axios_get w (userUrl username) = Rejected (AxiosError (Some 404)))
   \<and> (\<forall>e. axios_get w (userUrl username) = Rejected e \<and> e \<noteq> AxiosError (Some 404)
          \<longrightarrow> fst (fetchUserData w username p)
               = Inl (Error (lit ''Failed to fetch user data from GitHub API'')))
   \<and> (\<forall>d. axios_get w (userUrl username) = Resolved d
          \<longrightarrow> fst (fetchUserData w username p) = Inr d)
   \<and> sublist username (userNotFound username)
   \<and> sublist (lit ''not found'') (userNotFound username)
   \<and> userNotFound username \<noteq> lit ''Failed to fetch user data from GitHub API''"
proof -
  have a: "fst (fetchUserData w username p) = Inl (Error (userNotFound username))
      \<longleftrightarrow> axios_get w (userUrl username) = Rejected (AxiosError (Some 404))"
  proof (cases "axios_get w (userUrl username)")
    case (Resolved d)
    then show ?thesis by (simp add: fetchUserData_resolved)
  next
    case (Rejected e)
    then show ?thesis
      using userNotFound_not_generic(1) [of username]
      by (auto simp: fetchUserData_rejected)
  qed
  have b: "\<forall>e. axios_get w (userUrl username) = Rejected e \<and> e \<noteq> AxiosError (Some 404)
          \<longrightarrow> fst (fetchUserData w username p)
               = Inl (Error (lit ''Failed to fetch user data from GitHub API''))"
    by (simp add: fetchUserData_rejected)
  have r: "\<forall>d. axios_get w (userUrl username) = Resolved d
          \<longrightarrow> fst (fetchUserData w username p) = Inr d"
    by (simp add: fetchUserData_resolved)
  have c: "sublist username (userNotFound username)"
    unfolding userNotFound_def by (metis append.assoc sublist_appendI)
  have "userNotFound username
        = (lit ''User '' @ [apostrophe] @ username @ [apostrophe] @ lit '' '')
          @ lit ''not found'' @ lit '' on GitHub''"
    by (simp add: userNotFound_def lit_def)
  then have d: "sublist (lit ''not found'') (userNotFound username)"
    by (metis sublist_appendI)
  from a b r c d userNotFound_not_generic(1) [of username] show ?thesis by blast
qed

theorem user_fetch_not_found_only_on_404_witness:
  "fst (fetchUserData world_no_user (lit ''ghost'') start) = Inl (Error (userNotFound (lit ''ghost'')))
   \<and> axios_get world_no_user (userUrl (lit ''ghost'')) = Rejected (AxiosError (Some 404))
   \<and> axios_get world_offline (userUrl (lit ''ghost'')) = Rejected (AxiosError None)
   \<and> AxiosError None \<noteq> AxiosError (Some 404)
   \<and> fst (fetchUserData world_offline (lit ''ghost'') start)
       = Inl (Error (lit ''Failed to fetch user data from GitHub API''))
   \<and> axios_get example_world (userUrl (lit ''octocat'')) = Resolved (user_json example_user)
   \<and> fst (fetchUserData example_world (lit ''octocat'') start) = Inr (user_json example_user)"
proof -
  have h1: "axios_get world_no_user (userUrl (lit ''ghost'')) = Rejected (AxiosError (Some 404))"
    by (simp add: world_no_user_def axios_get_host)
  have h2: "axios_get world_offline (userUrl (lit ''ghost'')) = Rejected (AxiosError None)"
    by (simp add: world_offline_def axios_get_host)
  have h3: "AxiosError None \<noteq> AxiosError (Some 404)" by simp
  have h4: "axios_get example_world (userUrl (lit ''octocat'')) = Resolved (user_json example_user)"
    by (simp add: example_world_def axios_get_host serve_user)
  from user_fetch_not_found_only_on_404 [of world_no_user "lit ''ghost''" start] h1
  have a: "fst (fetchUserData world_no_user (lit ''ghost'') start)
           = Inl (Error (userNotFound (lit ''ghost'')))"
    by blast
  from user_fetch_not_found_only_on_404 [of world_offline "lit ''ghost''" start] h2 h3
  have b: "fst (fetchUserData world_offline (lit ''ghost'') start)
           = Inl (Error (lit ''Failed to fetch user data from GitHub API''))"
    by blast
  from user_fetch_not_found_only_on_404 [of example_world "lit ''octocat''" start] h4
  have c: "fst (fetchUserData example_world (lit ''octocat'') start) = Inr (user_json example_user)"
    by blast
  from a b c h1 h2 h3 h4 show ?thesis by blast
qed

text \<open>
  C3. In the events that the action adds, the request for the repositories is made only
  after the request for the profile has settled successfully, and it is made once; when
  the profile request is rejected, no request for the repositories is made.
\<close>

theorem repos_fetch_only_after_user_fetch_succeeds:
  "\<exists>evs. trace (action w username p) = trace p @ evs
     \<and> (\<forall>e. axios_get w (userUrl username) = Rejected e
            \<longrightarrow> AxiosGet (reposUrl username) \<notin> set evs)
     \<and> (AxiosGet (reposUrl username) \<in> set evs
            \<longrightarrow> (\<exists>d rest. axios_get w (userUrl username) = Resolved d
                   \<and> evs = [SpinnerStart (lit ''Fetching GitHub data...''),
                            AxiosGet (userUrl username), AxiosSettled (userUrl username) True,
                            AxiosGet (reposUrl username)] @ rest
                   \<and> AxiosGet (reposUrl username) \<notin> set rest))"
proof (cases "axios_get w (userUrl username)")
  case (Rejected e)
  let ?evs = "[SpinnerStart (lit ''Fetching GitHub data...''),
         AxiosGet (userUrl username), AxiosSettled (userUrl username) False,
         SpinnerFail (if e = AxiosError (Some 404) then userNotFound username
                      else lit ''Failed to fetch user data from GitHub API'')]"
  have tr: "trace (action w username p) = trace p @ ?evs"
    by (simp add: action_user_rejected [OF Rejected])
  have no: "AxiosGet (reposUrl username) \<notin> set ?evs"
    using userUrl_neq_reposUrl [of username] by auto
  from tr no Rejected show ?thesis by (intro exI[of _ ?evs]) simp
next
  case (Resolved d)
  show ?thesis
  proof (cases "axios_get w (reposUrl username)")
    case (Rejected e)
    let ?rest = "[AxiosSettled (reposUrl username) False,
         SpinnerFail (lit ''Failed to fetch repository data from GitHub API'')]"
    let ?evs = "[SpinnerStart (lit ''Fetching GitHub data...''),
         AxiosGet (userUrl username), AxiosSettled (userUrl username) True,
         AxiosGet (reposUrl username)] @ ?rest"
    have tr: "trace (action w username p) = trace p @ ?evs"
      by (simp add: action_repos_rejected [OF Resolved Rejected])
    have no: "AxiosGet (reposUrl username) \<notin> set ?rest" by simp
    from tr no Resolved show ?thesis by (intro exI[of _ ?evs]) simp
  next
    case r: (Resolved r)
    from action_resolved_trace [OF Resolved r, of p]
    obtain rs where tr: "trace (action w username p) =
           trace p @
           [SpinnerStart (lit ''Fetching GitHub data...''),
            AxiosGet (userUrl username), AxiosSettled (userUrl username) True,
            AxiosGet (reposUrl username), AxiosSettled (reposUrl username) True,
            SpinnerSucceed (lit ''Data fetched successfully!'')] @ rs"
      and rs: "\<forall>url. AxiosGet url \<notin> set rs"
      by blast
    let ?rest = "[AxiosSettled (reposUrl username) True,
            SpinnerSucceed (lit ''Data fetched successfully!'')] @ rs"
    let ?evs = "[SpinnerStart (lit ''Fetching GitHub data...''),
         AxiosGet (userUrl username), AxiosSettled (userUrl username) True,
         AxiosGet (reposUrl username)] @ ?rest"
    from rs have no: "AxiosGet (reposUrl username) \<notin> set ?rest" by simp
    have tr': "trace (action w username p) = trace p @ ?evs"
      using tr by simp
    from tr' no Resolved show ?thesis by (intro exI[of _ ?evs]) simp
  qed
qed

theorem repos_fetch_only_after_user_fetch_succeeds_witness:
  "axios_get world_no_user (userUrl (lit ''ghost'')) = Rejected (AxiosError (Some 404))
   \<and> AxiosGet (reposUrl (lit ''ghost'')) \<notin> set (trace (action world_no_user (lit ''ghost'') start))
   \<and> AxiosGet (reposUrl (lit ''octocat'')) \<in> set (trace (action example_world (lit ''octocat'') start))
   \<and> (\<exists>rest. trace (action example_world (lit ''octocat'') start)
          = [SpinnerStart (lit ''Fetching GitHub data...''),
             AxiosGet (userUrl (lit ''octocat'')), AxiosSettled (userUrl (lit ''octocat'')) True,
             AxiosGet (reposUrl (lit ''octocat''))] @ rest
          \<and> AxiosGet (reposUrl (lit ''octocat'')) \<notin> set rest)"
proof -
  have h1: "axios_get world_no_user (userUrl (lit ''ghost'')) = Rejected (AxiosError (Some 404))"
    by (simp add: world_no_user_def axios_get_host)
  from repos_fetch_only_after_user_fetch_succeeds [of world_no_user "lit ''ghost''" start] h1
  have a: "AxiosGet (reposUrl (lit ''ghost'')) \<notin> set (trace (action world_no_user (lit ''ghost'') start))"
    by (auto simp: start_def)
  have u: "axios_get example_world (userUrl (lit ''octocat'')) = Resolved (user_json example_user)"
    by (simp add: example_world_def axios_get_host serve_user)
  have r: "axios_get example_world (reposUrl (lit ''octocat'')) =
             Resolved (JArr [repo_json example_repo,
                             repo_json (example_repo\<lparr>language := Some (lit ''TypeScript'')\<rparr>)])"
    by (simp add: example_world_def axios_get_host serve_repos)
  from action_resolved_trace [OF u r, of start]
  have h2: "AxiosGet (reposUrl (lit ''octocat'')) \<in> set (trace (action example_world (lit ''octocat'') start))"
    by (auto simp: start_def)
  from repos_fetch_only_after_user_fetch_succeeds [of example_world "lit ''octocat''" start] h2
  have b: "\<exists>rest. trace (action example_world (lit ''octocat'') start)
          = [SpinnerStart (lit ''Fetching GitHub data...''),
             AxiosGet (userUrl (lit ''octocat'')), AxiosSettled (userUrl (lit ''octocat'')) True,
             AxiosGet (reposUrl (lit ''octocat''))] @ rest
          \<and> AxiosGet (reposUrl (lit ''octocat'')) \<notin> set rest"
    by (auto simp: start_def)
  from h1 a h2 b show ?thesis by blast
qed

text \<open>
  C4, as stated, fails when neither fetch fails but a response has another shape than
  its interface. For the username \<^verbatim>\<open>octocat#x\<close> the part after \<^verbatim>\<open>#\<close> is no part of the
  request, so both requests are answered with the profile: both fetches return, the
  profile and the heading of the table are logged, \<^verbatim>\<open>repos.forEach\<close> raises, and the
  process exits with code 1.
\<close>

theorem rendering_error_counterexample:
  "fst (fetchUserData world_fragment (lit ''octocat#x'') start) = Inr (user_json example_user)
   \<and> fst (fetchUserRepos world_fragment (lit ''octocat#x'') start) = Inr (user_json example_user)
   \<and> exit_code (action world_fragment (lit ''octocat#x'') start) = 1
   \<and> trace (action world_fragment (lit ''octocat#x'') start) =
       [SpinnerStart (lit ''Fetching GitHub data...''),
        AxiosGet (userUrl (lit ''octocat#x'')), AxiosSettled (userUrl (lit ''octocat#x'')) True,
        AxiosGet (reposUrl (lit ''octocat#x'')), AxiosSettled (reposUrl (lit ''octocat#x'')) True,
        SpinnerSucceed (lit ''Data fetched successfully!''),
        ConsoleLog Bold (newline # lit ''User Information:''),
        ConsoleLog Blue (lit ''Username: octocat''),
        ConsoleLog Blue (lit ''Name: The Octocat''),
        ConsoleLog Blue (lit ''Profile URL: https://github.com/octocat''),
        ConsoleLog Blue (lit ''Account Created: 1/25/2011''),
        ConsoleLog Bold (newline # lit ''Stats:''),
        ConsoleLog Green (lit ''Public Repositories: 8''),
        ConsoleLog Green (lit ''Followers: 120''),
        ConsoleLog Green (lit ''Following: 9''),
        ConsoleLog Bold (newline # lit ''Top 5 Repositories:''),
        SpinnerFail (lit ''repos.forEach is not a function'')]"
proof -
  have g: "\<And>url. axios_get world_fragment url = Resolved (user_json example_user)"
    by (simp add: world_fragment_def axios_get_host)
  have m: "typeErrorMessage world_fragment (NotAFunction ''repos.forEach'')
           = lit ''repos.forEach is not a function''"
    by (simp add: world_fragment_def example_host_def lit_def)
  have a: "action world_fragment (lit ''octocat#x'') start =
      \<lparr>trace =
       [SpinnerStart (lit ''Fetching GitHub data...''),
        AxiosGet (userUrl (lit ''octocat#x'')), AxiosSettled (userUrl (lit ''octocat#x'')) True,
        AxiosGet (reposUrl (lit ''octocat#x'')), AxiosSettled (reposUrl (lit ''octocat#x'')) True,
        SpinnerSucceed (lit ''Data fetched successfully!'')] @
        shapedLines world_fragment example_user @
        [ConsoleLog Bold (newline # lit ''Top 5 Repositories:''),
         SpinnerFail (lit ''repos.forEach is not a function'')],
       exited = Some 1\<rparr>"
    by (simp add: action_resolved [OF g g] displayUserInfo_shaped [OF shaped_user_json]
        user_json_not_array on_catch_def process_exit_def emit_def start_def m)
  have l: "shapedLines world_fragment example_user =
     [ConsoleLog Bold (newline # lit ''User Information:''),
      ConsoleLog Blue (lit ''Username: octocat''),
      ConsoleLog Blue (lit ''Name: The Octocat''),
      ConsoleLog Blue (lit ''Profile URL: https://github.com/octocat''),
      ConsoleLog Blue (lit ''Account Created: 1/25/2011''),
      ConsoleLog Bold (newline # lit ''Stats:''),
      ConsoleLog Green (lit ''Public Repositories: 8''),
      ConsoleLog Green (lit ''Followers: 120''),
      ConsoleLog Green (lit ''Following: 9'')]"
    unfolding world_fragment_def by (rule example_lines)
  show ?thesis
    unfolding a l
    by (simp add: fetchUserData_resolved [OF g] fetchUserRepos_resolved [OF g] exit_code_def)
qed

text \<open>
  C4, amended. When \<^verbatim>\<open>fetchUserData\<close> fails, or it succeeds and \<^verbatim>\<open>fetchUserRepos\<close>
  fails, the action hands the message of the error to \<^verbatim>\<open>spinner.fail\<close>, calls
  \<^verbatim>\<open>process.exit(1)\<close>, and logs nothing: neither display function has run. When both
  succeed and the two responses have the shapes of the interfaces, \<^verbatim>\<open>process.exit\<close> is
  not called and the process (not exited before) ends with code 0. When both succeed and
  a display function raises, the error reaches the same \<^verbatim>\<open>catch\<close> block: its message
  goes to \<^verbatim>\<open>spinner.fail\<close> and the exit code is 1.
\<close>

theorem fetch_failure_exits_1_without_rendering:
  "(\<forall>err p1. fetchUserData w username (emit (SpinnerStart (lit ''Fetching GitHub data...'')) p)
                 = (Inl err, p1)
        \<longrightarrow> action w username p = process_exit 1 (emit (SpinnerFail (message w err)) p1)
          \<and> exit_code (action w username p) = 1
          \<and> filter is_render (trace (action w username p)) = filter is_render (trace p))
   \<and> (\<forall>userData p1 err p2.
          fetchUserData w username (emit (SpinnerStart (lit ''Fetching GitHub data...'')) p)
            = (Inr userData, p1)
          \<and> fetchUserRepos w username p1 = (Inl err, p2)
        \<longrightarrow> action w username p = process_exit 1 (emit (SpinnerFail (message w err)) p2)
          \<and> exit_code (action w username p) = 1
          \<and> filter is_render (trace (action w username p)) = filter is_render (trace p))
   \<and> (\<forall>v p1 vs p2 userData repos.
          fetchUserData w username (emit (SpinnerStart (lit ''Fetching GitHub data...'')) p)
            = (Inr v, p1)
          \<and> fetchUserRepos w username p1 = (Inr (JArr vs), p2)
          \<and> shaped_GitHubUser v userData
          \<and> list_all2 shaped_GitHubRepo vs repos
          \<and> exited p = None
        \<longrightarrow> exit_code (action w username p) = 0
          \<and> exited (action w username p) = None)
   \<and> (\<forall>userData p1 userRepos p2 err p4.
          fetchUserData w username (emit (SpinnerStart (lit ''Fetching GitHub data...'')) p)
            = (Inr userData, p1)
          \<and> fetchUserRepos w username p1 = (Inr userRepos, p2)
          \<and> displayUserInfo w userData (emit (SpinnerSucceed (lit ''Data fetched successfully!'')) p2)
              = (Some err, p4)
        \<longrightarrow> action w username p = process_exit 1 (emit (SpinnerFail (message w err)) p4)
          \<and> exit_code (action w username p) = 1)
   \<and> (\<forall>userData p1 userRepos p2 p4 err p5.
          fetchUserData w username (emit (SpinnerStart (lit ''Fetching GitHub data...'')) p)
            = (Inr userData, p1)
          \<and> fetchUserRepos w username p1 = (Inr userRepos, p2)
          \<and> displayUserInfo w userData (emit (SpinnerSucceed (lit ''Data fetched successfully!'')) p2)
              = (None, p4)
          \<and> displayRepoInfo w userRepos p4 = (Some err, p5)
        \<longrightarrow> action w username p = process_exit 1 (emit (SpinnerFail (message w err)) p5)
          \<and> exit_code (action w username p) = 1)"
proof (cases "axios_get w (userUrl username)")
  case (Rejected e)
  show ?thesis
    by (simp add: action_user_rejected [OF Rejected] fetchUserData_rejected [OF Rejected]
        process_exit_def emit_def exit_code_def)
next
  case (Resolved d)
  show ?thesis
  proof (cases "axios_get w (reposUrl username)")
    case (Rejected e)
    show ?thesis
      by (simp add: action_repos_rejected [OF Resolved Rejected] fetchUserData_resolved [OF Resolved]
          fetchUserRepos_rejected [OF Rejected] process_exit_def emit_def exit_code_def)
  next
    case r: (Resolved r)
    have c12: "\<And>x y. fetchUserData w username x \<noteq> (Inl y, p1)"
      "\<And>x y q. fetchUserRepos w username x \<noteq> (Inl y, q)" for p1
      by (simp_all add: fetchUserData_resolved [OF Resolved] fetchUserRepos_resolved [OF r])
    have c3: "exit_code (action w username p) = 0
          \<and> exited (action w username p) = None"
      if "shaped_GitHubUser d userData" "r = JArr vs" "list_all2 shaped_GitHubRepo vs repos"
        "exited p = None" for userData vs repos
    proof -
      from r that(2) have r': "axios_get w (reposUrl username) = Resolved (JArr vs)" by simp
      show ?thesis
        using that(4)
        by (simp add: action_shaped [OF Resolved that(1) r' that(3)] exit_code_def)
    qed
    have c45: "action w username p =
       (case displayUserInfo w d (emit (SpinnerSucceed (lit ''Data fetched successfully!''))
               (p\<lparr>trace := trace p @
                  [SpinnerStart (lit ''Fetching GitHub data...''),
                   AxiosGet (userUrl username), AxiosSettled (userUrl username) True,
                   AxiosGet (reposUrl username), AxiosSettled (reposUrl username) True]\<rparr>)) of
          (Some e, p4) \<Rightarrow> on_catch w e p4
        | (None, p4) \<Rightarrow>
            (case displayRepoInfo w r p4 of
               (Some e, p5) \<Rightarrow> on_catch w e p5
             | (None, p5) \<Rightarrow> p5))"
      by (simp add: action_resolved [OF Resolved r] emit_def)
    show ?thesis
      using c3
      by (auto simp: c45 fetchUserData_resolved [OF Resolved] fetchUserRepos_resolved [OF r]
          on_catch_def process_exit_def exit_code_def emit_def)
  qed
qed

theorem fetch_failure_exits_1_without_rendering_witness:
  "fetchUserData world_no_user (lit ''ghost'') (emit (SpinnerStart (lit ''Fetching GitHub data...'')) start)
     = (Inl (Error (userNotFound (lit ''ghost''))),
        \<lparr>trace = [SpinnerStart (lit ''Fetching GitHub data...''),
                  AxiosGet (userUrl (lit ''ghost'')), AxiosSettled (userUrl (lit ''ghost'')) False],
         exited = None\<rparr>)
   \<and> action world_no_user (lit ''ghost'') start
     = \<lparr>trace = [SpinnerStart (lit ''Fetching GitHub data...''),
                 AxiosGet (userUrl (lit ''ghost'')), AxiosSettled (userUrl (lit ''ghost'')) False,
                 SpinnerFail (userNotFound (lit ''ghost''))],
        exited = Some 1\<rparr>
   \<and> exit_code (action world_no_user (lit ''ghost'') start) = 1
   \<and> filter is_render (trace (action world_no_user (lit ''ghost'') start)) = []
   \<and> action world_repos_down (lit ''octocat'') start
     = \<lparr>trace = [SpinnerStart (lit ''Fetching GitHub data...''),
                 AxiosGet (userUrl (lit ''octocat'')), AxiosSettled (userUrl (lit ''octocat'')) True,
                 AxiosGet (reposUrl (lit ''octocat'')), AxiosSettled (reposUrl (lit ''octocat'')) False,
                 SpinnerFail (lit ''Failed to fetch repository data from GitHub API'')],
        exited = Some 1\<rparr>
   \<and> exit_code (action world_repos_down (lit ''octocat'') start) = 1
   \<and> filter is_render (trace (action world_repos_down (lit ''octocat'') start)) = []
   \<and> exited start = None
   \<and> exit_code (action example_world (lit ''octocat'') start) = 0
   \<and> exited (action example_world (lit ''octocat'') start) = None
   \<and> action world_null (lit ''octocat'') start
     = \<lparr>trace = [SpinnerStart (lit ''Fetching GitHub data...''),
                 AxiosGet (userUrl (lit ''octocat'')), AxiosSettled (userUrl (lit ''octocat'')) True,
                 AxiosGet (reposUrl (lit ''octocat'')), AxiosSettled (reposUrl (lit ''octocat'')) True,
                 SpinnerSucceed (lit ''Data fetched successfully!''),
                 ConsoleLog Bold (newline # lit ''User Information:''),
                 SpinnerFail (lit ''Cannot read properties of null (reading '' @ [apostrophe] @ lit ''login''
                   @ [apostrophe] @ lit '')'')],
        exited = Some 1\<rparr>
   \<and> exit_code (action world_null (lit ''octocat'') start) = 1
   \<and> last (trace (action world_fragment (lit ''octocat#x'') start))
       = SpinnerFail (lit ''repos.forEach is not a function'')
   \<and> exit_code (action world_fragment (lit ''octocat#x'') start) = 1"
proof -
  let ?S = "SpinnerStart (lit ''Fetching GitHub data...'')"
  let ?OK = "SpinnerSucceed (lit ''Data fetched successfully!'')"
  let ?p1 = "\<lparr>trace = [?S, AxiosGet (userUrl (lit ''ghost'')),
                         AxiosSettled (userUrl (lit ''ghost'')) False],
               exited = None\<rparr>"
  have g0: "axios_get world_no_user (userUrl (lit ''ghost'')) = Rejected (AxiosError (Some 404))"
    by (simp add: world_no_user_def axios_get_host)
  have f1: "fetchUserData world_no_user (lit ''ghost'') (emit ?S start)
             = (Inl (Error (userNotFound (lit ''ghost''))), ?p1)"
    by (simp add: fetchUserData_rejected [OF g0] emit_def start_def)
  note a = fetch_failure_exits_1_without_rendering
             [of world_no_user "lit ''ghost''" start, THEN conjunct1, rule_format, OF f1]
  have a1: "action world_no_user (lit ''ghost'') start
     = \<lparr>trace = [?S, AxiosGet (userUrl (lit ''ghost'')), AxiosSettled (userUrl (lit ''ghost'')) False,
                 SpinnerFail (userNotFound (lit ''ghost''))],
        exited = Some 1\<rparr>"
    using a [THEN conjunct1] by (simp add: process_exit_def emit_def)
  have a3: "filter is_render (trace (action world_no_user (lit ''ghost'') start)) = []"
    using a [THEN conjunct2, THEN conjunct2] by (simp add: start_def)
  let ?q1 = "\<lparr>trace = [?S, AxiosGet (userUrl (lit ''octocat'')),
                         AxiosSettled (userUrl (lit ''octocat'')) True],
               exited = None\<rparr>"
  let ?q2 = "\<lparr>trace = [?S, AxiosGet (userUrl (lit ''octocat'')),
                         AxiosSettled (userUrl (lit ''octocat'')) True,
                         AxiosGet (reposUrl (lit ''octocat'')),
                         AxiosSettled (reposUrl (lit ''octocat'')) False],
               exited = None\<rparr>"
  have g1u: "axios_get world_repos_down (userUrl (lit ''octocat'')) = Resolved (user_json example_user)"
    by (simp add: world_repos_down_def axios_get_host serve_user)
  have g1r: "axios_get world_repos_down (reposUrl (lit ''octocat'')) = Rejected (AxiosError (Some 404))"
    by (simp add: world_repos_down_def axios_get_host serve_repos)
  have g1: "fetchUserData world_repos_down (lit ''octocat'') (emit ?S start)
              = (Inr (user_json example_user), ?q1)"
    by (simp add: fetchUserData_resolved [OF g1u] emit_def start_def)
  have g2: "fetchUserRepos world_repos_down (lit ''octocat'') ?q1
             = (Inl (Error (lit ''Failed to fetch repository data from GitHub API'')), ?q2)"
    by (simp add: fetchUserRepos_rejected [OF g1r])
  note b = fetch_failure_exits_1_without_rendering
             [of world_repos_down "lit ''octocat''" start, THEN conjunct2, THEN conjunct1,
              rule_format, OF conjI [OF g1 g2]]
  have b1: "action world_repos_down (lit ''octocat'') start
     = \<lparr>trace = [?S, AxiosGet (userUrl (lit ''octocat'')), AxiosSettled (userUrl (lit ''octocat'')) True,
                 AxiosGet (reposUrl (lit ''octocat'')), AxiosSettled (reposUrl (lit ''octocat'')) False,
                 SpinnerFail (lit ''Failed to fetch repository data from GitHub API'')],
        exited = Some 1\<rparr>"
    using b [THEN conjunct1] by (simp add: process_exit_def emit_def)
  have b3: "filter is_render (trace (action world_repos_down (lit ''octocat'') start)) = []"
    using b [THEN conjunct2, THEN conjunct2] by (simp add: start_def)
  let ?rs = "[example_repo, example_repo\<lparr>language := Some (lit ''TypeScript'')\<rparr>]"
  let ?r2 = "\<lparr>trace = [?S, AxiosGet (userUrl (lit ''octocat'')),
                         AxiosSettled (userUrl (lit ''octocat'')) True,
                         AxiosGet (reposUrl (lit ''octocat'')),
                         AxiosSettled (reposUrl (lit ''octocat'')) True],
               exited = None\<rparr>"
  have k0u: "axios_get example_world (userUrl (lit ''octocat'')) = Resolved (user_json example_user)"
    by (simp add: example_world_def axios_get_host serve_user)
  have k0r: "axios_get example_world (reposUrl (lit ''octocat'')) = Resolved (JArr (map repo_json ?rs))"
    by (simp add: example_world_def axios_get_host serve_repos)
  have k1: "fetchUserData example_world (lit ''octocat'') (emit ?S start)
              = (Inr (user_json example_user), ?q1)"
    by (simp add: fetchUserData_resolved [OF k0u] emit_def start_def)
  have k2: "fetchUserRepos example_world (lit ''octocat'') ?q1 = (Inr (JArr (map repo_json ?rs)), ?r2)"
    by (simp add: fetchUserRepos_resolved [OF k0r])
  have k3: "exited start = None" by (simp add: start_def)
  note c = fetch_failure_exits_1_without_rendering
             [of example_world "lit ''octocat''" start, THEN conjunct2, THEN conjunct2,
              THEN conjunct1, rule_format,
              OF conjI [OF k1 conjI [OF k2 conjI [OF shaped_user_json
                   conjI [OF shaped_repos_json k3]]]]]
  have n0: "\<And>url. axios_get world_null url = Resolved JNull"
    by (simp add: world_null_def axios_get_host)
  have n1: "fetchUserData world_null (lit ''octocat'') (emit ?S start) = (Inr JNull, ?q1)"
    by (simp add: fetchUserData_resolved [OF n0] emit_def start_def)
  have n2: "fetchUserRepos world_null (lit ''octocat'') ?q1 = (Inr JNull, ?r2)"
    by (simp add: fetchUserRepos_resolved [OF n0])
  let ?n4 = "\<lparr>trace = [?S, AxiosGet (userUrl (lit ''octocat'')),
                         AxiosSettled (userUrl (lit ''octocat'')) True,
                         AxiosGet (reposUrl (lit ''octocat'')),
                         AxiosSettled (reposUrl (lit ''octocat'')) True,
                         ?OK, ConsoleLog Bold (newline # lit ''User Information:'')],
               exited = None\<rparr>"
  have n3: "displayUserInfo world_null JNull (emit ?OK ?r2)
              = (Some (TypeError (ReadOfNull ''login'')), ?n4)"
    by (simp add: displayUserInfo_def log_stmt_def template_def console_log_def emit_def)
  note d = fetch_failure_exits_1_without_rendering
             [of world_null "lit ''octocat''" start, THEN conjunct2, THEN conjunct2,
              THEN conjunct2, THEN conjunct1, rule_format,
              OF conjI [OF n1 conjI [OF n2 n3]]]
  have nm: "message world_null (TypeError (ReadOfNull ''login''))
            = lit ''Cannot read properties of null (reading '' @ [apostrophe] @ lit ''login''
                @ [apostrophe] @ lit '')''"
    by (simp add: world_null_def example_host_def lit_def)
  have d1: "action world_null (lit ''octocat'') start
     = \<lparr>trace = [?S, AxiosGet (userUrl (lit ''octocat'')), AxiosSettled (userUrl (lit ''octocat'')) True,
                 AxiosGet (reposUrl (lit ''octocat'')), AxiosSettled (reposUrl (lit ''octocat'')) True,
                 ?OK, ConsoleLog Bold (newline # lit ''User Information:''),
                 SpinnerFail (lit ''Cannot read properties of null (reading '' @ [apostrophe] @ lit ''login''
                   @ [apostrophe] @ lit '')'')],
        exited = Some 1\<rparr>"
    unfolding d [THEN conjunct1] nm by (simp add: process_exit_def emit_def)
  let ?x = "lit ''octocat#x''"
  let ?f1 = "\<lparr>trace = [?S, AxiosGet (userUrl ?x), AxiosSettled (userUrl ?x) True],
               exited = None\<rparr>"
  let ?f2 = "\<lparr>trace = [?S, AxiosGet (userUrl ?x), AxiosSettled (userUrl ?x) True,
                         AxiosGet (reposUrl ?x), AxiosSettled (reposUrl ?x) True],
               exited = None\<rparr>"
  have x0: "\<And>url. axios_get world_fragment url = Resolved (user_json example_user)"
    by (simp add: world_fragment_def axios_get_host)
  have x1: "fetchUserData world_fragment ?x (emit ?S start) = (Inr (user_json example_user), ?f1)"
    by (simp add: fetchUserData_resolved [OF x0] emit_def start_def)
  have x2: "fetchUserRepos world_fragment ?x ?f1 = (Inr (user_json example_user), ?f2)"
    by (simp add: fetchUserRepos_resolved [OF x0])
  let ?f4 = "(emit ?OK ?f2)\<lparr>trace := trace (emit ?OK ?f2) @ shapedLines world_fragment example_user\<rparr>"
  have x3: "displayUserInfo world_fragment (user_json example_user) (emit ?OK ?f2) = (None, ?f4)"
    by (rule displayUserInfo_shaped [OF shaped_user_json])
  let ?f5 = "?f4\<lparr>trace := trace ?f4 @ [ConsoleLog Bold (newline # lit ''Top 5 Repositories:'')]\<rparr>"
  have x4: "displayRepoInfo world_fragment (user_json example_user) ?f4
              = (Some (TypeError (NotAFunction ''repos.forEach'')), ?f5)"
    by (rule user_json_not_array)
  note e = fetch_failure_exits_1_without_rendering
             [of world_fragment ?x start, THEN conjunct2, THEN conjunct2,
              THEN conjunct2, THEN conjunct2, rule_format,
              OF conjI [OF x1 conjI [OF x2 conjI [OF x3 x4]]]]
  have xm: "message world_fragment (TypeError (NotAFunction ''repos.forEach''))
            = lit ''repos.forEach is not a function''"
    by (simp add: world_fragment_def example_host_def lit_def)
  have e1: "last (trace (action world_fragment ?x start)) = SpinnerFail (lit ''repos.forEach is not a function'')"
    unfolding e [THEN conjunct1] xm by (simp add: process_exit_def emit_def)
  show ?thesis
    by (intro conjI f1 a1 a3 b1 b3 k3 d1 e1
        a [THEN conjunct2, THEN conjunct1] b [THEN conjunct2, THEN conjunct1]
        c [THEN conjunct1] c [THEN conjunct2] d [THEN conjunct2] e [THEN conjunct2])
qed

text \<open>
  C5. Every rejection of the repositories request, a 404 included, makes
  \<^verbatim>\<open>fetchUserRepos\<close> fail with the one generic message
  \<^verbatim>\<open>Failed to fetch repository data from GitHub API\<close>; it has no other failure, and
  that message is never a not-found message.
\<close>

theorem repos_fetch_fails_only_generically:
  "(\<forall>e. axios_get w (reposUrl username) = Rejected e
          \<longrightarrow> fst (fetchUserRepos w username p)
               = Inl (Error (lit ''Failed to fetch repository data from GitHub API'')))
   \<and> (\<forall>err. fst (fetchUserRepos w username p) = Inl err
          \<longrightarrow> err = Error (lit ''Failed to fetch repository data from GitHub API''))
   \<and> (\<forall>v. lit ''Failed to fetch repository data from GitHub API'' \<noteq> userNotFound v)"
proof -
  have a: "\<forall>e. axios_get w (reposUrl username) = Rejected e
          \<longrightarrow> fst (fetchUserRepos w username p)
               = Inl (Error (lit ''Failed to fetch repository data from GitHub API''))"
    by (simp add: fetchUserRepos_rejected)
  have b: "\<forall>err. fst (fetchUserRepos w username p) = Inl err
          \<longrightarrow> err = Error (lit ''Failed to fetch repository data from GitHub API'')"
    by (cases "axios_get w (reposUrl username)")
       (auto simp: fetchUserRepos_rejected fetchUserRepos_resolved)
  have c: "\<forall>v. lit ''Failed to fetch repository data from GitHub API'' \<noteq> userNotFound v"
    using userNotFound_not_generic(2) by metis
  from a b c show ?thesis by blast
qed

theorem repos_fetch_fails_only_generically_witness:
  "axios_get world_no_user (reposUrl (lit ''ghost'')) = Rejected (AxiosError (Some 404))
   \<and> fst (fetchUserRepos world_no_user (lit ''ghost'') start)
       = Inl (Error (lit ''Failed to fetch repository data from GitHub API''))"
proof -
  have h: "axios_get world_no_user (reposUrl (lit ''ghost'')) = Rejected (AxiosError (Some 404))"
    by (simp add: world_no_user_def axios_get_host)
  from repos_fetch_fails_only_generically [of world_no_user "lit ''ghost''" start] h
  show ?thesis by blast
qed

text \<open>
  C6. On the empty list \<^verbatim>\<open>displayRepoInfo\<close> logs the notice
  \<^verbatim>\<open>No repositories found.\<close> and nothing else: no heading and no table.
\<close>

theorem empty_list_prints_only_the_notice:
  "displayRepoInfo w (JArr []) p =
     (None, p\<lparr>trace := trace p @ [ConsoleLog Yellow (newline # lit ''No repositories found.'')]\<rparr>)
   \<and> filter is_render (trace (snd (displayRepoInfo w (JArr []) start)))
       = [ConsoleLog Yellow (newline # lit ''No repositories found.'')]"
  by (simp add: displayRepoInfo_empty start_def)

text \<open>
  C7, as stated, fails for a repository whose language is present and is the empty
  string: the Language cell of the logged table is \<^verbatim>\<open>N/A\<close>, not that language.
\<close>

theorem language_present_counterexample:
  "shaped_GitHubRepo (repo_json (example_repo\<lparr>language := Some []\<rparr>))
     (example_repo\<lparr>language := Some []\<rparr>)
   \<and> language (example_repo\<lparr>language := Some []\<rparr>) = Some []
   \<and> displayRepoInfo example_world (JArr [repo_json (example_repo\<lparr>language := Some []\<rparr>)]) start
     = (None,
        \<lparr>trace =
           [ConsoleLog Bold (newline # lit ''Top 5 Repositories:''),
            ConsoleLogTable
              (newTable\<lparr>rows :=
                 [[Styled Cyan (lit ''stats''),
                   Val (JStr (lit ''A command line tool that sh...'')),
                   Val (JNum (Integral 3)),
                   Val (JNum (Integral 1)),
                   Val (JStr (lit ''N/A''))]]\<rparr>)],
         exited = None\<rparr>)
   \<and> Val (JStr (lit ''N/A'')) \<noteq> Val (JStr [])"
proof -
  let ?r = "example_repo\<lparr>language := Some []\<rparr>"
  have sh: "list_all2 shaped_GitHubRepo [repo_json ?r] [?r]"
    by (simp add: shaped_repo_json)
  have row: "shapedRow ?r =
     [Styled Cyan (lit ''stats''),
      Val (JStr (lit ''A command line tool that sh...'')),
      Val (JNum (Integral 3)), Val (JNum (Integral 1)), Val (JStr (lit ''N/A''))]"
    by (simp add: shapedRow_def shownDescription_def shownLanguage_def example_repo_def lit_def)
  have "displayRepoInfo example_world (JArr [repo_json ?r]) start
     = (None, start\<lparr>trace := trace start @
         [ConsoleLog Bold (newline # lit ''Top 5 Repositories:''),
          ConsoleLogTable (newTable\<lparr>rows := map shapedRow [?r]\<rparr>)]\<rparr>)"
    by (rule displayRepoInfo_shaped [OF sh]) simp
  then show ?thesis
    by (simp add: row start_def shaped_repo_json lit_def)
qed

text \<open>
  C7, amended. In the table that \<^verbatim>\<open>displayRepoInfo\<close> logs, the Language cell of a
  repository with no language is \<^verbatim>\<open>N/A\<close>, and the Language cell of a repository with
  a language that is present and not the empty string is that language.
\<close>

theorem language_cell_or_NA:
  assumes "list_all2 shaped_GitHubRepo vs repos" and "i < length repos"
  shows "\<exists>t. displayRepoInfo w (JArr vs) p =
               (None, p\<lparr>trace := trace p @
                  [ConsoleLog Bold (newline # lit ''Top 5 Repositories:''), ConsoleLogTable t]\<rparr>)
             \<and> (language (repos ! i) = None \<longrightarrow> rows t ! i ! 4 = Val (JStr (lit ''N/A'')))
             \<and> (\<forall>l. language (repos ! i) = Some l \<and> l \<noteq> []
                    \<longrightarrow> rows t ! i ! 4 = Val (JStr l))"
proof -
  from assms(2) have ne: "repos \<noteq> []" by auto
  let ?t = "newTable\<lparr>rows := map shapedRow repos\<rparr>"
  have cell: "rows ?t ! i ! 4 = Val (JStr (shownLanguage (language (repos ! i))))"
    using assms(2) by (simp add: shapedRow_def)
  have out: "displayRepoInfo w (JArr vs) p =
               (None, p\<lparr>trace := trace p @
                  [ConsoleLog Bold (newline # lit ''Top 5 Repositories:''), ConsoleLogTable ?t]\<rparr>)"
    by (rule displayRepoInfo_shaped [OF assms(1) ne])
  show ?thesis
    unfolding out using cell
    by (intro exI[of _ ?t]) (auto simp: shownLanguage_def)
qed

theorem language_cell_or_NA_witness:
  "list_all2 shaped_GitHubRepo
     (map repo_json [example_repo, example_repo\<lparr>language := Some (lit ''TypeScript'')\<rparr>])
     [example_repo, example_repo\<lparr>language := Some (lit ''TypeScript'')\<rparr>]
   \<and> (\<exists>t. displayRepoInfo example_world
             (JArr (map repo_json
                [example_repo, example_repo\<lparr>language := Some (lit ''TypeScript'')\<rparr>])) start
           = (None, start\<lparr>trace := trace start @
                [ConsoleLog Bold (newline # lit ''Top 5 Repositories:''), ConsoleLogTable t]\<rparr>)
         \<and> language example_repo = None
         \<and> rows t ! 0 ! 4 = Val (JStr (lit ''N/A''))
         \<and> lit ''TypeScript'' \<noteq> []
         \<and> rows t ! 1 ! 4 = Val (JStr (lit ''TypeScript'')))"
proof -
  let ?rs = "[example_repo, example_repo\<lparr>language := Some (lit ''TypeScript'')\<rparr>]"
  have sh: "list_all2 shaped_GitHubRepo (map repo_json ?rs) ?rs"
    by (rule shaped_repos_json)
  have h0: "0 < length ?rs" and h1: "1 < length ?rs" by simp_all
  have l0: "language (?rs ! 0) = None" and l0': "language example_repo = None"
    by (simp_all add: example_repo_def)
  have l1: "language (?rs ! 1) = Some (lit ''TypeScript'')" and l1': "lit ''TypeScript'' \<noteq> []"
    by (simp_all add: lit_def)
  let ?out = "\<lambda>t. displayRepoInfo example_world (JArr (map repo_json ?rs)) start
           = (None, start\<lparr>trace := trace start @
                [ConsoleLog Bold (newline # lit ''Top 5 Repositories:''), ConsoleLogTable t]\<rparr>)"
  from language_cell_or_NA [OF sh h0, of example_world start] l0
  obtain t where t: "?out t" and c0: "rows t ! 0 ! 4 = Val (JStr (lit ''N/A''))"
    by blast
  from language_cell_or_NA [OF sh h1, of example_world start] l1 l1'
  obtain t1 where t1: "?out t1" and c1: "rows t1 ! 1 ! 4 = Val (JStr (lit ''TypeScript''))"
    by blast
  from t t1 have "t1 = t" by (simp add: start_def)
  with t c0 c1 l0' l1' sh show ?thesis by blast
qed

text \<open>
  C8. For a profile whose counts are below \<open>2^53\<close>, \<^verbatim>\<open>displayUserInfo\<close> logs, in
  this order: the heading, the username, the name (only when there is one, and it is
  not empty), the bio (likewise), the profile URL, the creation date as the host's
  \<^verbatim>\<open>toLocaleDateString\<close> gives it, the heading of the stats, and the counts of public
  repositories, followers and following in decimal digits.
\<close>

theorem profile_lines_in_fixed_order:
  assumes "shaped_GitHubUser v userData"
    and "public_repos userData < 2 ^ 53"
    and "followers userData < 2 ^ 53"
    and "following userData < 2 ^ 53"
  shows "displayUserInfo w v p =
     (None,
      p\<lparr>trace := trace p @
        [ConsoleLog Bold (newline # lit ''User Information:''),
         ConsoleLog Blue (lit ''Username: '' @ login userData)] @
        (case name userData of
           None \<Rightarrow> []
         | Some n \<Rightarrow> if n = [] then [] else [ConsoleLog Blue (lit ''Name: '' @ n)]) @
        (case bio userData of
           None \<Rightarrow> []
         | Some b \<Rightarrow> if b = [] then [] else [ConsoleLog Blue (lit ''Bio: '' @ b)]) @
        [ConsoleLog Blue (lit ''Profile URL: '' @ html_url userData),
         ConsoleLog Blue (lit ''Account Created: '' @ toLocaleDateString w (created_at userData)),
         ConsoleLog Bold (newline # lit ''Stats:''),
         ConsoleLog Green (lit ''Public Repositories: '' @ decimal (public_repos userData)),
         ConsoleLog Green (lit ''Followers: '' @ decimal (followers userData)),
         ConsoleLog Green (lit ''Following: '' @ decimal (following userData))]\<rparr>)"
proof -
  have n: "numberToString w (Integral (int (public_repos userData))) = decimal (public_repos userData)"
    "numberToString w (Integral (int (followers userData))) = decimal (followers userData)"
    "numberToString w (Integral (int (following userData))) = decimal (following userData)"
    using assms(2-4) by (simp_all only: numberToString_safe)
  show ?thesis
    unfolding displayUserInfo_shaped [OF assms(1)]
    by (simp add: shapedLines_def optionalLine_def n)
qed

theorem profile_lines_in_fixed_order_witness:
  "shaped_GitHubUser (user_json (example_user\<lparr>bio := Some (lit ''Mascot'')\<rparr>))
     (example_user\<lparr>bio := Some (lit ''Mascot'')\<rparr>)
   \<and> public_repos (example_user\<lparr>bio := Some (lit ''Mascot'')\<rparr>) < 2 ^ 53
   \<and> followers (example_user\<lparr>bio := Some (lit ''Mascot'')\<rparr>) < 2 ^ 53
   \<and> following (example_user\<lparr>bio := Some (lit ''Mascot'')\<rparr>) < 2 ^ 53
   \<and> displayUserInfo example_world (user_json (example_user\<lparr>bio := Some (lit ''Mascot'')\<rparr>)) start =
     (None,
      \<lparr>trace =
        [ConsoleLog Bold (newline # lit ''User Information:''),
         ConsoleLog Blue (lit ''Username: octocat''),
         ConsoleLog Blue (lit ''Name: The Octocat''),
         ConsoleLog Blue (lit ''Bio: Mascot''),
         ConsoleLog Blue (lit ''Profile URL: https://github.com/octocat''),
         ConsoleLog Blue (lit ''Account Created: 1/25/2011''),
         ConsoleLog Bold (newline # lit ''Stats:''),
         ConsoleLog Green (lit ''Public Repositories: 8''),
         ConsoleLog Green (lit ''Followers: 120''),
         ConsoleLog Green (lit ''Following: 9'')],
       exited = None\<rparr>)"
proof -
  let ?u = "example_user\<lparr>bio := Some (lit ''Mascot'')\<rparr>"
  have b: "public_repos ?u < 2 ^ 53" "followers ?u < 2 ^ 53" "following ?u < 2 ^ 53"
    by (simp_all add: example_user_def)
  have d: "decimal 8 = lit ''8''" "decimal 120 = lit ''120''" "decimal 9 = lit ''9''"
    by (simp_all add: lit_def digit_def decimal.simps)
  have rhs: "start\<lparr>trace := trace start @
        [ConsoleLog Bold (newline # lit ''User Information:''),
         ConsoleLog Blue (lit ''Username: '' @ login ?u)] @
        (case name ?u of
           None \<Rightarrow> []
         | Some n \<Rightarrow> if n = [] then [] else [ConsoleLog Blue (lit ''Name: '' @ n)]) @
        (case bio ?u of
           None \<Rightarrow> []
         | Some b \<Rightarrow> if b = [] then [] else [ConsoleLog Blue (lit ''Bio: '' @ b)]) @
        [ConsoleLog Blue (lit ''Profile URL: '' @ html_url ?u),
         ConsoleLog Blue (lit ''Account Created: '' @ toLocaleDateString example_world (created_at ?u)),
         ConsoleLog Bold (newline # lit ''Stats:''),
         ConsoleLog Green (lit ''Public Repositories: '' @ decimal (public_repos ?u)),
         ConsoleLog Green (lit ''Followers: '' @ decimal (followers ?u)),
         ConsoleLog Green (lit ''Following: '' @ decimal (following ?u))]\<rparr>
     = \<lparr>trace =
        [ConsoleLog Bold (newline # lit ''User Information:''),
         ConsoleLog Blue (lit ''Username: octocat''),
         ConsoleLog Blue (lit ''Name: The Octocat''),
         ConsoleLog Blue (lit ''Bio: Mascot''),
         ConsoleLog Blue (lit ''Profile URL: https://github.com/octocat''),
         ConsoleLog Blue (lit ''Account Created: 1/25/2011''),
         ConsoleLog Bold (newline # lit ''Stats:''),
         ConsoleLog Green (lit ''Public Repositories: 8''),
         ConsoleLog Green (lit ''Followers: 120''),
         ConsoleLog Green (lit ''Following: 9'')],
       exited = None\<rparr>"
    by (simp add: example_user_def example_world_def example_host_def start_def d lit_def)
  have "displayUserInfo example_world (user_json ?u) start =
     (None,
      \<lparr>trace =
        [ConsoleLog Bold (newline # lit ''User Information:''),
         ConsoleLog Blue (lit ''Username: octocat''),
         ConsoleLog Blue (lit ''Name: The Octocat''),
         ConsoleLog Blue (lit ''Bio: Mascot''),
         ConsoleLog Blue (lit ''Profile URL: https://github.com/octocat''),
         ConsoleLog Blue (lit ''Account Created: 1/25/2011''),
         ConsoleLog Bold (newline # lit ''Stats:''),
         ConsoleLog Green (lit ''Public Repositories: 8''),
         ConsoleLog Green (lit ''Followers: 120''),
         ConsoleLog Green (lit ''Following: 9'')],
       exited = None\<rparr>)"
    unfolding profile_lines_in_fixed_order [OF shaped_user_json b, of example_world start] rhs
    by (rule refl)
  with b shaped_user_json [of ?u] show ?thesis by (intro conjI)
qed




text \<open>
  C10. An optional field that is the empty string is rendered as an absent one. In the
  table that \<^verbatim>\<open>displayRepoInfo\<close> logs, the Language cell of a repository whose language
  is the empty string (or absent) is \<^verbatim>\<open>N/A\<close>. \<^verbatim>\<open>displayUserInfo\<close> logs no
  \<^verbatim>\<open>Name:\<close> line for a name that is the empty string (or absent), and no \<^verbatim>\<open>Bio:\<close>
  line for such a bio: the lines logged are exactly the others.
\<close>

theorem empty_string_is_rendered_as_absent:
  "(\<forall>vs repos i.
      list_all2 shaped_GitHubRepo vs repos \<and> i < length repos
      \<and> (language (repos ! i) = Some [] \<or> language (repos ! i) = None)
      \<longrightarrow> (\<exists>t. displayRepoInfo w (JArr vs) p =
                  (None, p\<lparr>trace := trace p @
                     [ConsoleLog Bold (newline # lit ''Top 5 Repositories:''), ConsoleLogTable t]\<rparr>)
               \<and> rows t ! i ! 4 = Val (JStr (lit ''N/A''))))
   \<and> (\<forall>v u.
        shaped_GitHubUser v u \<and> (name u = Some [] \<or> name u = None)
        \<longrightarrow> displayUserInfo w v p =
            (None,
             p\<lparr>trace := trace p @
               [ConsoleLog Bold (newline # lit ''User Information:''),
                ConsoleLog Blue (lit ''Username: '' @ login u)] @
               (case bio u of
                  None \<Rightarrow> []
                | Some b \<Rightarrow> if b = [] then [] else [ConsoleLog Blue (lit ''Bio: '' @ b)]) @
               [ConsoleLog Blue (lit ''Profile URL: '' @ html_url u),
                ConsoleLog Blue (lit ''Account Created: '' @ toLocaleDateString w (created_at u)),
                ConsoleLog Bold (newline # lit ''Stats:''),
                ConsoleLog Green
                  (lit ''Public Repositories: '' @ numberToString w (Integral (int (public_repos u)))),
                ConsoleLog Green
                  (lit ''Followers: '' @ numberToString w (Integral (int (followers u)))),
                ConsoleLog Green
                  (lit ''Following: '' @ numberToString w (Integral (int (following u))))]\<rparr>))
   \<and> (\<forall>v u.
        shaped_GitHubUser v u \<and> (bio u = Some [] \<or> bio u = None)
        \<longrightarrow> displayUserInfo w v p =
            (None,
             p\<lparr>trace := trace p @
               [ConsoleLog Bold (newline # lit ''User Information:''),
                ConsoleLog Blue (lit ''Username: '' @ login u)] @
               (case name u of
                  None \<Rightarrow> []
                | Some n \<Rightarrow> if n = [] then [] else [ConsoleLog Blue (lit ''Name: '' @ n)]) @
               [ConsoleLog Blue (lit ''Profile URL: '' @ html_url u),
                ConsoleLog Blue (lit ''Account Created: '' @ toLocaleDateString w (created_at u)),
                ConsoleLog Bold (newline # lit ''Stats:''),
                ConsoleLog Green
                  (lit ''Public Repositories: '' @ numberToString w (Integral (int (public_repos u)))),
                ConsoleLog Green
                  (lit ''Followers: '' @ numberToString w (Integral (int (followers u)))),
                ConsoleLog Green
                  (lit ''Following: '' @ numberToString w (Integral (int (following u))))]\<rparr>))"
proof (intro conjI allI impI)
  fix vs repos i
  assume h: "list_all2 shaped_GitHubRepo vs repos \<and> i < length repos
      \<and> (language (repos ! i) = Some [] \<or> language (repos ! i) = None)"
  then have ne: "repos \<noteq> []" by auto
  let ?t = "newTable\<lparr>rows := map shapedRow repos\<rparr>"
  have cell: "rows ?t ! i ! 4 = Val (JStr (lit ''N/A''))"
    using h by (auto simp: shapedRow_def shownLanguage_def)
  have out: "displayRepoInfo w (JArr vs) p =
               (None, p\<lparr>trace := trace p @
                  [ConsoleLog Bold (newline # lit ''Top 5 Repositories:''), ConsoleLogTable ?t]\<rparr>)"
    using h ne by (simp add: displayRepoInfo_shaped)
  from out cell
  show "\<exists>t. displayRepoInfo w (JArr vs) p =
                  (None, p\<lparr>trace := trace p @
                     [ConsoleLog Bold (newline # lit ''Top 5 Repositories:''), ConsoleLogTable t]\<rparr>)
               \<and> rows t ! i ! 4 = Val (JStr (lit ''N/A''))"
    by blast
next
  fix v u
  assume "shaped_GitHubUser v u \<and> (name u = Some [] \<or> name u = None)"
  then show "displayUserInfo w v p =
            (None,
             p\<lparr>trace := trace p @
               [ConsoleLog Bold (newline # lit ''User Information:''),
                ConsoleLog Blue (lit ''Username: '' @ login u)] @
               (case bio u of
                  None \<Rightarrow> []
                | Some b \<Rightarrow> if b = [] then [] else [ConsoleLog Blue (lit ''Bio: '' @ b)]) @
               [ConsoleLog Blue (lit ''Profile URL: '' @ html_url u),
                ConsoleLog Blue (lit ''Account Created: '' @ toLocaleDateString w (created_at u)),
                ConsoleLog Bold (newline # lit ''Stats:''),
                ConsoleLog Green
                  (lit ''Public Repositories: '' @ numberToString w (Integral (int (public_repos u)))),
                ConsoleLog Green
                  (lit ''Followers: '' @ numberToString w (Integral (int (followers u)))),
                ConsoleLog Green
                  (lit ''Following: '' @ numberToString w (Integral (int (following u))))]\<rparr>)"
    by (auto simp: displayUserInfo_shaped shapedLines_def optionalLine_def)
next
  fix v u
  assume "shaped_GitHubUser v u \<and> (bio u = Some [] \<or> bio u = None)"
  then show "displayUserInfo w v p =
            (None,
             p\<lparr>trace := trace p @
               [ConsoleLog Bold (newline # lit ''User Information:''),
                ConsoleLog Blue (lit ''Username: '' @ login u)] @
               (case name u of
                  None \<Rightarrow> []
                | Some n \<Rightarrow> if n = [] then [] else [ConsoleLog Blue (lit ''Name: '' @ n)]) @
               [ConsoleLog Blue (lit ''Profile URL: '' @ html_url u),
                ConsoleLog Blue (lit ''Account Created: '' @ toLocaleDateString w (created_at u)),
                ConsoleLog Bold (newline # lit ''Stats:''),
                ConsoleLog Green
                  (lit ''Public Repositories: '' @ numberToString w (Integral (int (public_repos u)))),
                ConsoleLog Green
                  (lit ''Followers: '' @ numberToString w (Integral (int (followers u)))),
                ConsoleLog Green
                  (lit ''Following: '' @ numberToString w (Integral (int (following u))))]\<rparr>)"
    by (auto simp: displayUserInfo_shaped shapedLines_def optionalLine_def)
qed

theorem empty_string_is_rendered_as_absent_witness:
  "list_all2 shaped_GitHubRepo [repo_json (example_repo\<lparr>language := Some []\<rparr>)]
     [example_repo\<lparr>language := Some []\<rparr>]
   \<and> language ([example_repo\<lparr>language := Some []\<rparr>] ! 0) = Some []
   \<and> (\<exists>t. displayRepoInfo example_world
              (JArr [repo_json (example_repo\<lparr>language := Some []\<rparr>)]) start =
             (None, start\<lparr>trace := trace start @
                [ConsoleLog Bold (newline # lit ''Top 5 Repositories:''), ConsoleLogTable t]\<rparr>)
           \<and> rows t ! 0 ! 4 = Val (JStr (lit ''N/A'')))
   \<and> shaped_GitHubUser (user_json (example_user\<lparr>name := Some []\<rparr>)) (example_user\<lparr>name := Some []\<rparr>)
   \<and> name (example_user\<lparr>name := Some []\<rparr>) = Some []
   \<and> displayUserInfo example_world (user_json (example_user\<lparr>name := Some []\<rparr>)) start =
       (None,
        \<lparr>trace =
          [ConsoleLog Bold (newline # lit ''User Information:''),
           ConsoleLog Blue (lit ''Username: octocat''),
           ConsoleLog Blue (lit ''Profile URL: https://github.com/octocat''),
           ConsoleLog Blue (lit ''Account Created: 1/25/2011''),
           ConsoleLog Bold (newline # lit ''Stats:''),
           ConsoleLog Green (lit ''Public Repositories: 8''),
           ConsoleLog Green (lit ''Followers: 120''),
           ConsoleLog Green (lit ''Following: 9'')],
         exited = None\<rparr>)
   \<and> shaped_GitHubUser (user_json (example_user\<lparr>bio := Some []\<rparr>)) (example_user\<lparr>bio := Some []\<rparr>)
   \<and> bio (example_user\<lparr>bio := Some []\<rparr>) = Some []
   \<and> displayUserInfo example_world (user_json (example_user\<lparr>bio := Some []\<rparr>)) start =
       (None,
        \<lparr>trace =
          [ConsoleLog Bold (newline # lit ''User Information:''),
           ConsoleLog Blue (lit ''Username: octocat''),
           ConsoleLog Blue (lit ''Name: The Octocat''),
           ConsoleLog Blue (lit ''Profile URL: https://github.com/octocat''),
           ConsoleLog Blue (lit ''Account Created: 1/25/2011''),
           ConsoleLog Bold (newline # lit ''Stats:''),
           ConsoleLog Green (lit ''Public Repositories: 8''),
           ConsoleLog Green (lit ''Followers: 120''),
           ConsoleLog Green (lit ''Following: 9'')],
         exited = None\<rparr>)"
proof -
  let ?r = "example_repo\<lparr>language := Some []\<rparr>"
  let ?u1 = "example_user\<lparr>name := Some []\<rparr>"
  let ?u2 = "example_user\<lparr>bio := Some []\<rparr>"
  note T = empty_string_is_rendered_as_absent [of example_world start]
  have sh: "list_all2 shaped_GitHubRepo [repo_json ?r] [?r]"
    by (simp add: shaped_repo_json)
  have i0: "0 < length [?r]" by simp
  have l0: "language ([?r] ! 0) = Some []" by simp
  note a = T [THEN conjunct1, rule_format, OF conjI [OF sh conjI [OF i0 disjI1 [OF l0]]]]
  have n1: "name ?u1 = Some []" by simp
  note b = T [THEN conjunct2, THEN conjunct1, rule_format,
              OF conjI [OF shaped_user_json disjI1 [OF n1]]]
  have n2: "bio ?u2 = Some []" by simp
  note c = T [THEN conjunct2, THEN conjunct2, rule_format,
              OF conjI [OF shaped_user_json disjI1 [OF n2]]]
  have d: "decimal 8 = lit ''8''" "decimal 120 = lit ''120''" "decimal 9 = lit ''9''"
    by (simp_all add: lit_def digit_def decimal.simps)
  have b': "displayUserInfo example_world (user_json ?u1) start =
       (None,
        \<lparr>trace =
          [ConsoleLog Bold (newline # lit ''User Information:''),
           ConsoleLog Blue (lit ''Username: octocat''),
           ConsoleLog Blue (lit ''Profile URL: https://github.com/octocat''),
           ConsoleLog Blue (lit ''Account Created: 1/25/2011''),
           ConsoleLog Bold (newline # lit ''Stats:''),
           ConsoleLog Green (lit ''Public Repositories: 8''),
           ConsoleLog Green (lit ''Followers: 120''),
           ConsoleLog Green (lit ''Following: 9'')],
         exited = None\<rparr>)"
    unfolding b
    by (simp add: example_user_def example_world_def example_host_def start_def
        numberToString_def d lit_def)
  have c': "displayUserInfo example_world (user_json ?u2) start =
       (None,
        \<lparr>trace =
          [ConsoleLog Bold (newline # lit ''User Information:''),
           ConsoleLog Blue (lit ''Username: octocat''),
           ConsoleLog Blue (lit ''Name: The Octocat''),
           ConsoleLog Blue (lit ''Profile URL: https://github.com/octocat''),
           ConsoleLog Blue (lit ''Account Created: 1/25/2011''),
           ConsoleLog Bold (newline # lit ''Stats:''),
           ConsoleLog Green (lit ''Public Repositories: 8''),
           ConsoleLog Green (lit ''Followers: 120''),
           ConsoleLog Green (lit ''Following: 9'')],
         exited = None\<rparr>)"
    unfolding c
    by (simp add: example_user_def example_world_def example_host_def start_def
        numberToString_def d lit_def)
  show ?thesis
    by (intro conjI sh l0 a shaped_user_json n1 b' n2 c')
qed

end
